theory Spec2Isabelle
  imports Complex_Main "HOL-Library.Multiset"
begin

section \<open>Numbers, civil dates and JavaScript Date values\<close>

text \<open>
  The predictors and the reconciler exchange civil dates as strings \<open>YYYY-MM-DD\<close>
  (\<open>ISODateString\<close>) and compute on JavaScript \<open>Date\<close> objects. A well-formed date
  string is modelled by its day number (days since 1970-01-01), a \<open>Date\<close> by its
  time value in milliseconds since the epoch.
\<close>

type_synonym ISODateString = int
type_synonym Date = int

definition msPerDay :: int where
  "msPerDay = 24 * 60 * 60 * 1000"

definition msPerHour :: int where
  "msPerHour = 60 * 60 * 1000"

text \<open>\<open>new Date(dateStr + 'T00:00:00Z')\<close>\<close>
definition parseDate :: "ISODateString \<Rightarrow> Date" where
  "parseDate dateStr = dateStr * msPerDay"

text \<open>\<open>date.toISOString().split('T')[0]\<close>: the UTC day of the time value.\<close>
definition formatDate :: "Date \<Rightarrow> ISODateString" where
  "formatDate date = date div msPerDay"

subsection \<open>The arithmetic of numbers\<close>

text \<open>
  A JavaScript number is a binary64 floating-point number, and every arithmetic
  operation returns the exact result rounded to such a number. The rounding is a
  parameter \<open>r\<close> of the model: \<open>binary64\<close> below is the rounding of the language,
  \<open>exact\<close> is arithmetic without rounding. Numbers are modelled by the reals they
  denote; the special values \<open>NaN\<close> and \<open>Infinity\<close> arise only where the model says so.
\<close>

type_synonym Rounding = "real \<Rightarrow> real"

definition exact :: Rounding where
  "exact x = x"

text \<open>
  Rounding to the nearest binary64 number, ties to the even significand, for the
  normal range (magnitudes between 2 to the power -1022 and 2 to the power 1024, which
  all values met here respect): the significand has 53 bits.
\<close>
definition roundHalfEven :: "real \<Rightarrow> int" where
  "roundHalfEven y =
     (if y - real_of_int \<lfloor>y\<rfloor> < 1 / 2 then \<lfloor>y\<rfloor>
      else if 1 / 2 < y - real_of_int \<lfloor>y\<rfloor> then \<lfloor>y\<rfloor> + 1
      else if even \<lfloor>y\<rfloor> then \<lfloor>y\<rfloor> else \<lfloor>y\<rfloor> + 1)"

definition binary64 :: Rounding where
  "binary64 x =
     (if x = 0 then 0
      else let e = \<lfloor>log 2 \<bar>x\<bar>\<rfloor> - 52
           in real_of_int (roundHalfEven (x / power_int 2 e)) * power_int 2 e)"

text \<open>A number literal of the source text denotes the number nearest to it.\<close>
definition lit :: "Rounding \<Rightarrow> real \<Rightarrow> real" where
  "lit r x = r x"

text \<open>\<open>x + y\<close>; the sum of zero and a number is that number.\<close>
definition fadd :: "Rounding \<Rightarrow> real \<Rightarrow> real \<Rightarrow> real" where
  "fadd r x y = (if x = 0 then y else if y = 0 then x else r (x + y))"

text \<open>\<open>x - y\<close>, \<open>x * y\<close>, \<open>x / y\<close> (no divisor is zero where the model divides)\<close>
definition fsub :: "Rounding \<Rightarrow> real \<Rightarrow> real \<Rightarrow> real" where
  "fsub r x y = r (x - y)"

definition fmul :: "Rounding \<Rightarrow> real \<Rightarrow> real \<Rightarrow> real" where
  "fmul r x y = r (x * y)"

definition fdiv :: "Rounding \<Rightarrow> real \<Rightarrow> real \<Rightarrow> real" where
  "fdiv r x y = r (x / y)"

text \<open>\<open>Math.exp(x)\<close> and \<open>Math.pow(x, n)\<close> for a natural exponent, taken as correctly rounded.\<close>
definition Math_exp :: "Rounding \<Rightarrow> real \<Rightarrow> real" where
  "Math_exp r x = r (exp x)"

definition Math_pow :: "Rounding \<Rightarrow> real \<Rightarrow> nat \<Rightarrow> real" where
  "Math_pow r x n = r (x ^ n)"

text \<open>\<open>xs.reduce((a, b) => a + b, 0)\<close>: the sum is accumulated from the left.\<close>
definition sumFromZero :: "Rounding \<Rightarrow> real list \<Rightarrow> real" where
  "sumFromZero r xs = foldl (fadd r) 0 xs"

text \<open>\<open>Math.round\<close> rounds to the nearest integer, halves upwards.\<close>
definition Math_round :: "real \<Rightarrow> int" where
  "Math_round x = \<lfloor>x + 1 / 2\<rfloor>"

text \<open>
  \<open>new Date(x)\<close> on a number keeps the integral part of \<open>x\<close> (truncation); beyond
  8.64e15 ms from the epoch, and for \<open>NaN\<close>, the date is invalid (\<open>None\<close>).
\<close>
definition newDate :: "real \<Rightarrow> Date option" where
  "newDate x = (if \<bar>x\<bar> > 8640000000000000 then None
                else Some (if 0 \<le> x then \<lfloor>x\<rfloor> else \<lceil>x\<rceil>))"

definition daysBetween :: "Rounding \<Rightarrow> Date \<Rightarrow> Date \<Rightarrow> int" where
  "daysBetween r a b = Math_round (fdiv r (real_of_int \<bar>a - b\<bar>) (real_of_int msPerDay))"

subsection \<open>The time zone of the host\<close>

text \<open>
  \<open>getDate\<close> and \<open>setDate\<close> work on the local time of the host. A time zone is given
  by its standard offset from UTC in milliseconds and by the set of instants at which
  daylight saving time, one hour ahead, is in effect. \<open>LocalTime\<close> and \<open>UTC\<close> are the
  conversions of the language: a local time that the clocks skip or show twice is
  read with the offset in effect before the transition.
\<close>

record TimeZone =
  standardOffset :: int
  inDST :: "Date \<Rightarrow> bool"

definition LocalTime :: "TimeZone \<Rightarrow> Date \<Rightarrow> int" where
  "LocalTime z t = t + standardOffset z + (if inDST z t then msPerHour else 0)"

definition UTC :: "TimeZone \<Rightarrow> int \<Rightarrow> Date" where
  "UTC z t =
     (if inDST z (t - standardOffset z - msPerHour) then t - standardOffset z - msPerHour
      else t - standardOffset z)"

text \<open>\<open>date.setDate(date.getDate() + n)\<close>: the local day moves, the local time of day stays.\<close>
definition setDate_plus :: "TimeZone \<Rightarrow> Date \<Rightarrow> int \<Rightarrow> Date" where
  "setDate_plus z t n = UTC z (LocalTime z t + n * msPerDay)"

text \<open>\<open>date.setUTCDate(date.getUTCDate() + n)\<close>\<close>
definition setUTCDate_plus :: "Date \<Rightarrow> int \<Rightarrow> Date" where
  "setUTCDate_plus t n = t + n * msPerDay"

text \<open>The loop of \<open>getDateRange\<close>; a step advances the time value by 23 hours at least.\<close>
function getDateRange :: "TimeZone \<Rightarrow> Date \<Rightarrow> Date \<Rightarrow> Date list" where
  "getDateRange z current endD =
     (if current \<le> endD then current # getDateRange z (setDate_plus z current 1) endD else [])"
  by pat_completeness auto
termination
  by (relation "measure (\<lambda>(z, c, e). nat (e + 1 - c))")
     (auto simp: setDate_plus_def UTC_def LocalTime_def msPerDay_def msPerHour_def)

declare getDateRange.simps [simp del]

text \<open>
  The host: its time zone, its date formatting
  (\<open>toLocaleDateString('en-US', {month: 'short', day: 'numeric'})\<close>), and the values
  that \<open>crypto.randomUUID()\<close> and \<open>new Date().toISOString()\<close> return when a predictor
  reads them.
\<close>
record Host =
  timeZone :: TimeZone
  toLocaleDateString :: "Date \<Rightarrow> string"
  randomUUID :: string
  isoNow :: string

section \<open>Predictions and source weights\<close>

type_synonym PredictionSource = string

record Prediction =
  idP :: string
  source :: PredictionSource
  fertileStart :: ISODateString
  fertileEnd :: ISODateString
  ovulationDate :: "ISODateString option"
  confidence :: "real option"
  cycleId :: "string option"
  notesP :: "string option"
  createdAt :: string
  updatedAt :: string

type_synonym SourceWeights = "string \<rightharpoonup> real"

definition DEFAULT_WEIGHTS :: "Rounding \<Rightarrow> SourceWeights" where
  "DEFAULT_WEIGHTS r = map_of
     [(''natural-cycles'', lit r 0.95), (''fertility-friend'', lit r 0.90),
      (''fertile-algorithm'', lit r 0.85),
      (''flo'', lit r 0.70), (''clue'', lit r 0.70), (''ovia'', lit r 0.65),
      (''manual'', lit r 0.60), (''calendar'', lit r 0.55), (''symptoms'', lit r 0.75)]"

record DayScore =
  date :: ISODateString
  probability :: real
  sources :: "PredictionSource list"
  rawScores :: "(PredictionSource \<times> real) list"

record Diagnostics =
  sourceAgreement :: real
  outliers :: "PredictionSource list"
  weights :: SourceWeights
  dayScores :: "DayScore list"
  inputPredictions :: nat

record ReconciledPrediction =
  r_fertileStart :: Date
  r_fertileEnd :: Date
  r_ovulationDate :: "Date option"
  r_confidence :: real
  explain :: "string list"
  diagnostics :: Diagnostics

text \<open>The caller's options; an absent key is \<open>None\<close>.\<close>
record ReconcilerOptions =
  opt_weights :: "SourceWeights option"
  opt_minConfidenceThreshold :: "real option"
  opt_disagreementPenalty :: "real option"
  opt_minSources :: "int option"

text \<open>\<open>{ ...DEFAULT_OPTIONS, ...options }\<close> with every key present.\<close>
record RequiredOptions =
  weightsO :: SourceWeights
  minConfidenceThreshold :: real
  disagreementPenalty :: real
  minSources :: int

definition noOptions :: ReconcilerOptions where
  "noOptions = \<lparr>opt_weights = None, opt_minConfidenceThreshold = None,
                 opt_disagreementPenalty = None, opt_minSources = None\<rparr>"

definition DEFAULT_OPTIONS :: "Rounding \<Rightarrow> RequiredOptions" where
  "DEFAULT_OPTIONS r = \<lparr>weightsO = DEFAULT_WEIGHTS r, minConfidenceThreshold = lit r 0.3,
                         disagreementPenalty = lit r 0.15, minSources = 1\<rparr>"

definition mergeOptions :: "Rounding \<Rightarrow> ReconcilerOptions \<Rightarrow> RequiredOptions" where
  "mergeOptions r options =
     \<lparr>weightsO = (case opt_weights options of None \<Rightarrow> weightsO (DEFAULT_OPTIONS r) | Some w \<Rightarrow> w),
      minConfidenceThreshold = (case opt_minConfidenceThreshold options of
          None \<Rightarrow> minConfidenceThreshold (DEFAULT_OPTIONS r) | Some t \<Rightarrow> t),
      disagreementPenalty = (case opt_disagreementPenalty options of
          None \<Rightarrow> disagreementPenalty (DEFAULT_OPTIONS r) | Some d \<Rightarrow> d),
      minSources = (case opt_minSources options of
          None \<Rightarrow> minSources (DEFAULT_OPTIONS r) | Some m \<Rightarrow> m)\<rparr>"

text \<open>
  \<open>weights[source] ?? 0.5\<close> for the source tags of the type \<open>PredictionSource\<close> and
  every other string that is not a property of \<open>Object.prototype\<close>.
\<close>
definition getWeight :: "PredictionSource \<Rightarrow> SourceWeights \<Rightarrow> real" where
  "getWeight src ws = (case ws src of None \<Rightarrow> 0.5 | Some w \<Rightarrow> w)"

section \<open>The reconciler\<close>

definition calculateSourceAgreement :: "Rounding \<Rightarrow> Prediction list \<Rightarrow> real" where
  "calculateSourceAgreement r predictions =
     (if length predictions \<le> 1 then 1
      else
        let starts = map (\<lambda>p. real_of_int (parseDate (fertileStart p))) predictions;
            ends = map (\<lambda>p. real_of_int (parseDate (fertileEnd p))) predictions;
            avgStart = fdiv r (sumFromZero r starts) (real (length starts));
            avgEnd = fdiv r (sumFromZero r ends) (real (length ends));
            startVariance =
              fdiv r (foldl (\<lambda>sum s. fadd r sum
                         (Math_pow r (fdiv r (fsub r s avgStart) (real_of_int msPerDay)) 2)) 0 starts)
                (real (length starts));
            endVariance =
              fdiv r (foldl (\<lambda>sum e. fadd r sum
                         (Math_pow r (fdiv r (fsub r e avgEnd) (real_of_int msPerDay)) 2)) 0 ends)
                (real (length ends));
            avgVariance = fdiv r (fadd r startVariance endVariance) 2
        in Math_exp r (fdiv r (- avgVariance) 8))"

text \<open>
  The loop that accumulates \<open>(totalWeight, weightedStartSum, weightedEndSum)\<close>, in
  input order.
\<close>
definition centroidSums :: "Rounding \<Rightarrow> Prediction list \<Rightarrow> SourceWeights \<Rightarrow> real \<times> real \<times> real" where
  "centroidSums r predictions ws =
     foldl (\<lambda>(totalWeight, weightedStartSum, weightedEndSum) p.
              let weight = getWeight (source p) ws;
                  startTime = real_of_int (parseDate (fertileStart p));
                  endTime = real_of_int (parseDate (fertileEnd p))
              in (fadd r totalWeight weight,
                  fadd r weightedStartSum (fmul r startTime weight),
                  fadd r weightedEndSum (fmul r endTime weight)))
       (0, 0, 0) predictions"

text \<open>
  \<open>daysBetween(p, centroid) > 3\<close>; against an invalid date the difference is \<open>NaN\<close>
  and the comparison false.
\<close>
definition deviates :: "Rounding \<Rightarrow> Date \<Rightarrow> Date option \<Rightarrow> bool" where
  "deviates r d centroid = (case centroid of None \<Rightarrow> False | Some c \<Rightarrow> daysBetween r d c > 3)"

text \<open>
  With a total weight of zero the quotients are \<open>NaN\<close> or infinite, the centroids
  are invalid dates, and no prediction is reported.
\<close>
definition identifyOutliers :: "Rounding \<Rightarrow> Prediction list \<Rightarrow> SourceWeights \<Rightarrow> PredictionSource list" where
  "identifyOutliers r predictions ws =
     (if length predictions \<le> 2 then []
      else
        let (totalWeight, weightedStartSum, weightedEndSum) = centroidSums r predictions ws
        in if totalWeight = 0 then []
           else
             let centroidStart = newDate (fdiv r weightedStartSum totalWeight);
                 centroidEnd = newDate (fdiv r weightedEndSum totalWeight)
             in map source (filter (\<lambda>p.
                    deviates r (parseDate (fertileStart p)) centroidStart
                  \<or> deviates r (parseDate (fertileEnd p)) centroidEnd) predictions))"

definition sourceConfidence :: "Rounding \<Rightarrow> Prediction \<Rightarrow> real" where
  "sourceConfidence r p = fdiv r (case confidence p of None \<Rightarrow> 50 | Some c \<Rightarrow> c) 100"

text \<open>
  The inner loop of \<open>buildDayScores\<close>: the raw scores and the covering sources of one
  time value \<open>d\<close> of the range, in input order.
\<close>
fun scoreDay :: "Rounding \<Rightarrow> SourceWeights \<Rightarrow> Date \<Rightarrow> Prediction list
                   \<Rightarrow> (PredictionSource \<times> real) list \<times> PredictionSource list" where
  "scoreDay r ws d [] = ([], [])"
| "scoreDay r ws d (p # ps) =
     (let (raw, srcs) = scoreDay r ws d ps;
          start = parseDate (fertileStart p);
          endD = parseDate (fertileEnd p);
          weight = getWeight (source p) ws;
          sc = sourceConfidence r p
      in if d \<ge> start \<and> d \<le> endD then ((source p, fmul r weight sc) # raw, source p # srcs)
         else
           let daysOutside = min (daysBetween r d start) (daysBetween r d endD);
               decayScore = fmul r (fmul r weight sc)
                  (Math_exp r (fdiv r (- Math_pow r (real_of_int daysOutside) 2) 2))
           in if decayScore > lit r 0.1 then ((source p, decayScore) # raw, srcs) else (raw, srcs))"

definition minDateOf :: "Prediction list \<Rightarrow> Date" where
  "minDateOf predictions =
     foldl (\<lambda>minDate p. if parseDate (fertileStart p) < minDate then parseDate (fertileStart p)
                         else minDate)
       (parseDate (fertileStart (hd predictions))) predictions"

definition maxDateOf :: "Prediction list \<Rightarrow> Date" where
  "maxDateOf predictions =
     foldl (\<lambda>maxDate p. if parseDate (fertileEnd p) > maxDate then parseDate (fertileEnd p)
                         else maxDate)
       (parseDate (fertileEnd (hd predictions))) predictions"

text \<open>\<open>predictions.reduce((sum, p) => sum + getWeight(p.source, weights), 0)\<close>\<close>
definition totalWeightOf :: "Rounding \<Rightarrow> Prediction list \<Rightarrow> SourceWeights \<Rightarrow> real" where
  "totalWeightOf r predictions ws = sumFromZero r (map (\<lambda>p. getWeight (source p) ws) predictions)"

definition dayScoreAt :: "Rounding \<Rightarrow> Prediction list \<Rightarrow> SourceWeights \<Rightarrow> Date \<Rightarrow> DayScore" where
  "dayScoreAt r predictions ws d =
     (let (raw, srcs) = scoreDay r ws d predictions;
          totalWeight = totalWeightOf r predictions ws;
          prob = (if totalWeight > 0 then fdiv r (sumFromZero r (map snd raw)) totalWeight else 0)
      in \<lparr>date = formatDate d, probability = prob, sources = srcs, rawScores = raw\<rparr>)"

definition buildDayScores :: "Rounding \<Rightarrow> TimeZone \<Rightarrow> Prediction list \<Rightarrow> SourceWeights
    \<Rightarrow> DayScore list" where
  "buildDayScores r z predictions ws =
     (if predictions = [] then []
      else
        let extendedMin = setDate_plus z (minDateOf predictions) (- 2);
            extendedMax = setDate_plus z (maxDateOf predictions) 2;
            allDates = getDateRange z extendedMin extendedMax
        in map (dayScoreAt r predictions ws) allDates)"

text \<open>
  The scan for the longest run of consecutive days. The state is
  \<open>(bestStart, bestLength, currentStart, currentLength)\<close>; \<open>i\<close> is the loop index and
  \<open>prevDate\<close> the date at index \<open>i - 1\<close>.
\<close>
fun windowScan :: "Rounding \<Rightarrow> Date \<Rightarrow> Date list \<Rightarrow> nat \<Rightarrow> nat \<times> nat \<times> nat \<times> nat
                    \<Rightarrow> nat \<times> nat \<times> nat \<times> nat" where
  "windowScan r prevDate [] i st = st"
| "windowScan r prevDate (currDate # ds) i (bestStart, bestLength, currentStart, currentLength) =
     (if daysBetween r currDate prevDate = 1
      then windowScan r currDate ds (i + 1) (bestStart, bestLength, currentStart, currentLength + 1)
      else if currentLength > bestLength
      then windowScan r currDate ds (i + 1) (currentStart, currentLength, i, 1)
      else windowScan r currDate ds (i + 1) (bestStart, bestLength, i, 1))"

definition windowDaysOf :: "Rounding \<Rightarrow> DayScore list \<Rightarrow> DayScore list" where
  "windowDaysOf r sortedDays =
     (let times = map (\<lambda>d. parseDate (date d)) sortedDays;
          (bestStart, bestLength, currentStart, currentLength) =
             windowScan r (hd times) (tl times) 1 (0, 1, 0, 1);
          (bestStart', bestLength') =
             (if currentLength > bestLength then (currentStart, currentLength)
              else (bestStart, bestLength))
      in take bestLength' (drop bestStart' sortedDays))"

text \<open>
  \<open>None\<close> is the result \<open>{start: null, end: null, peak: null}\<close>. The slice
  \<open>windowDays\<close> is never empty when some day reaches the threshold, so reading its
  first and last element does not fail. The sort is stable.
\<close>
definition findFertileWindow :: "Rounding \<Rightarrow> DayScore list \<Rightarrow> real \<Rightarrow> (Date \<times> Date \<times> Date) option" where
  "findFertileWindow r ds threshold =
     (let fertileDays = filter (\<lambda>d. probability d \<ge> threshold) ds
      in if fertileDays = [] then None
         else
           let sortedDays = sort_key (\<lambda>d. parseDate (date d)) fertileDays;
               windowDays = windowDaysOf r sortedDays;
               peak = foldl (\<lambda>best day. if probability day > probability best then day else best)
                        (hd windowDays) windowDays
           in Some (parseDate (date (hd windowDays)), parseDate (date (last windowDays)),
                    parseDate (date peak)))"

subsection \<open>Explanations\<close>

text \<open>Decimal rendering of a non-negative integer, as in a template literal.\<close>
fun showNat :: "nat \<Rightarrow> string" where
  "showNat n = (if n < 10 then [char_of (48 + n)] else showNat (n div 10) @ [char_of (48 + n mod 10)])"

definition showInt :: "int \<Rightarrow> string" where
  "showInt i = (if i < 0 then ''-'' @ showNat (nat (- i)) else showNat (nat i))"

text \<open>\<open>xs.join(sep)\<close>\<close>
fun join :: "string \<Rightarrow> string list \<Rightarrow> string" where
  "join sep [] = []"
| "join sep [x] = x"
| "join sep (x # y # ys) = x @ sep @ join sep (y # ys)"

text \<open>\<open>[...new Set(xs)]\<close>: the first occurrence of every element, in input order.\<close>
definition uniqueOf :: "'a list \<Rightarrow> 'a list" where
  "uniqueOf xs = foldl (\<lambda>acc x. if x \<in> set acc then acc else acc @ [x]) [] xs"

text \<open>
  \<open>formatDateReadable\<close> is \<open>toLocaleDateString\<close> of the host. The sort of the peak
  days is stable and descending in the probability.
\<close>
definition generateExplanations :: "Rounding \<Rightarrow> Host \<Rightarrow> Prediction list \<Rightarrow> DayScore list \<Rightarrow> real
    \<Rightarrow> PredictionSource list \<Rightarrow> Date \<Rightarrow> Date \<Rightarrow> string list" where
  "generateExplanations r h predictions ds agreement outl fStart fEnd =
     (let formatDateReadable = toLocaleDateString h;
          sourceCount = length predictions;
          uniqueSources = uniqueOf (map source predictions);
          sourceLine =
            (if sourceCount = 1 then ''Based on '' @ source (hd predictions) @ '' prediction only''
             else ''Reconciled from '' @ showNat sourceCount @ '' predictions (''
                    @ join '', '' uniqueSources @ '')'');
          agreementLine =
            (if agreement \<ge> lit r 0.9 then ''Strong agreement: All sources align closely''
             else if agreement \<ge> lit r 0.7 then ''Good agreement: Sources mostly align''
             else if agreement \<ge> 0.5 then ''Moderate agreement: Some variation between sources''
             else ''Low agreement: Sources show significant variation'');
          windowLength = daysBetween r fEnd fStart + 1;
          windowLine = ''Fertile window: '' @ formatDateReadable fStart @ '' - ''
                    @ formatDateReadable fEnd @ '' ('' @ showInt windowLength @ '' days)'';
          outlierLines =
            (if length outl > 0
             then [''Note: '' @ join '', '' outl @ '' ''
                     @ (if length outl = 1 then ''differs'' else ''differ'')
                     @ '' significantly from consensus'']
             else []);
          peakDays = sort_key (\<lambda>d. - probability d) (filter (\<lambda>d. probability d \<ge> lit r 0.8) ds);
          peakLines =
            (if length peakDays > 0
             then [''Peak fertility: '' @ formatDateReadable (parseDate (date (hd peakDays)))]
             else [])
      in [sourceLine, agreementLine, windowLine] @ outlierLines @ peakLines)"

subsection \<open>The main function\<close>

text \<open>The predictions that pass admission: \<open>(p.confidence ?? 50) > 0\<close>.\<close>
definition validPredictionsOf :: "Prediction list \<Rightarrow> Prediction list" where
  "validPredictionsOf predictions =
     filter (\<lambda>p. (case confidence p of None \<Rightarrow> 50 | Some c \<Rightarrow> c) > 0) predictions"

definition effectiveThreshold :: "Rounding \<Rightarrow> RequiredOptions \<Rightarrow> real \<Rightarrow> real" where
  "effectiveThreshold r opts agreement =
     (if agreement < lit r 0.7
      then fadd r (minConfidenceThreshold opts)
             (fmul r (disagreementPenalty opts) (fsub r 1 agreement))
      else minConfidenceThreshold opts)"

text \<open>
  \<open>[...validPredictions].sort((a, b) => getWeight(b) - getWeight(a))[0]\<close>: the sort is
  stable and descending in the weight (the difference of two numbers has the sign of
  their exact difference).
\<close>
definition fallbackBest :: "Prediction list \<Rightarrow> SourceWeights \<Rightarrow> Prediction" where
  "fallbackBest validPredictions ws =
     hd (sort_key (\<lambda>p. - getWeight (source p) ws) validPredictions)"

definition finalConfidence :: "Rounding \<Rightarrow> real \<Rightarrow> nat \<Rightarrow> nat \<Rightarrow> real" where
  "finalConfidence r agreement n nOutliers =
     (let c1 = fmul r agreement (min 1 (fadd r (lit r 0.7) (fmul r (real n) (lit r 0.1))));
          c2 = fmul r c1 (max 0.5 (fsub r 1 (fmul r (real nOutliers) (lit r 0.1))))
      in min 1 (max 0 c2))"

definition reconcile :: "Rounding \<Rightarrow> Host \<Rightarrow> Prediction list \<Rightarrow> ReconcilerOptions
    \<Rightarrow> ReconciledPrediction option" where
  "reconcile r h predictions options =
     (let opts = mergeOptions r options;
          ws = DEFAULT_WEIGHTS r ++ weightsO opts
      in if int (length predictions) < minSources opts then None
         else
           let validPredictions = validPredictionsOf predictions
           in if validPredictions = [] then None
              else
                let agreement = calculateSourceAgreement r validPredictions;
                    outl = identifyOutliers r validPredictions ws;
                    ds = buildDayScores r (timeZone h) validPredictions ws;
                    diag = \<lparr>sourceAgreement = agreement, outliers = outl, weights = ws,
                            dayScores = ds, inputPredictions = length validPredictions\<rparr>
                in case findFertileWindow r ds (effectiveThreshold r opts agreement) of
                     None \<Rightarrow>
                       let best = fallbackBest validPredictions ws
                       in Some \<lparr>r_fertileStart = parseDate (fertileStart best),
                                r_fertileEnd = parseDate (fertileEnd best),
                                r_ovulationDate = map_option parseDate (ovulationDate best),
                                r_confidence = max (lit r 0.2) (fmul r agreement 0.5),
                                explain = [''Low confidence: Could not reconcile predictions'',
                                           ''Falling back to '' @ source best @ '' prediction''],
                                diagnostics = diag\<rparr>
                   | Some (wStart, wEnd, wPeak) \<Rightarrow>
                       Some \<lparr>r_fertileStart = wStart,
                             r_fertileEnd = wEnd,
                             r_ovulationDate = Some wPeak,
                             r_confidence = finalConfidence r agreement (length validPredictions)
                                              (length outl),
                             explain = generateExplanations r h validPredictions ds
                                         agreement outl wStart wEnd,
                             diagnostics = diag\<rparr>)"

section \<open>The predictors\<close>

text \<open>
  \<open>generateId\<close> returns \<open>crypto.randomUUID()\<close> and \<open>getTimestamp\<close> returns
  \<open>new Date().toISOString()\<close>. Both read the host; a predictor calls each of them
  once.
\<close>

definition generateId :: "Host \<Rightarrow> string" where
  "generateId h = randomUUID h"

definition getTimestamp :: "Host \<Rightarrow> string" where
  "getTimestamp h = isoNow h"

text \<open>
  \<open>addDays\<close> of the calendar predictor moves the UTC day (\<open>setUTCDate\<close>); \<open>addDays\<close>
  of the symptom predictor (\<open>addDays_s\<close>) moves the local day (\<open>setDate\<close>) of the
  UTC midnight that it parsed.
\<close>
definition addDays :: "ISODateString \<Rightarrow> int \<Rightarrow> ISODateString" where
  "addDays dateStr days = formatDate (setUTCDate_plus (parseDate dateStr) days)"

definition addDays_s :: "TimeZone \<Rightarrow> ISODateString \<Rightarrow> int \<Rightarrow> ISODateString" where
  "addDays_s z dateStr days = formatDate (setDate_plus z (parseDate dateStr) days)"

subsection \<open>The symptom predictor\<close>

text \<open>The arithmetic of the two predictors is taken without rounding.\<close>

datatype CervicalMucusType = Dry | Sticky | Creamy | Watery | EggWhite | Spotting

datatype OPKResult = Negative | AlmostPositive | Positive | Invalid

datatype SymptomType = Cramps | Bloating | BreastTenderness | Headache | MoodChanges
  | Fatigue | IncreasedLibido | Mittelschmerz | Acne | Other

text \<open>The tagged union: the \<open>type\<close> tag with the value and the fields of that kind.\<close>
datatype ObservationValue =
    CervicalMucusObs CervicalMucusType
  | BBTObs real "string option"
  | OPKObs OPKResult "string option"
  | SymptomObs SymptomType "nat option"

record Observation =
  obs_id :: string
  obs_date :: ISODateString
  obs_value :: ObservationValue
  obs_notes :: "string option"
  obs_createdAt :: string
  obs_updatedAt :: string

definition isCervicalMucus :: "Observation \<Rightarrow> bool" where
  "isCervicalMucus ob = (case obs_value ob of CervicalMucusObs _ \<Rightarrow> True | _ \<Rightarrow> False)"

definition isOPK :: "Observation \<Rightarrow> bool" where
  "isOPK ob = (case obs_value ob of OPKObs _ _ \<Rightarrow> True | _ \<Rightarrow> False)"

definition isBBT :: "Observation \<Rightarrow> bool" where
  "isBBT ob = (case obs_value ob of BBTObs _ _ \<Rightarrow> True | _ \<Rightarrow> False)"

fun CM_FERTILITY_SCORES :: "CervicalMucusType \<Rightarrow> real" where
  "CM_FERTILITY_SCORES Dry = 0"
| "CM_FERTILITY_SCORES Sticky = 1"
| "CM_FERTILITY_SCORES Creamy = 2"
| "CM_FERTILITY_SCORES Watery = 4"
| "CM_FERTILITY_SCORES EggWhite = 5"
| "CM_FERTILITY_SCORES Spotting = 1"

record SymptomPredictorOptions =
  opt_minCMScore :: "real option"
  opt_daysBeforeOPK :: "int option"
  opt_daysAfterOPK :: "int option"
  opt_cmWeight :: "real option"
  opt_opkWeight :: "real option"

record RequiredSymptomOptions =
  minCMScore :: real
  daysBeforeOPK :: int
  daysAfterOPK :: int
  cmWeight :: real
  opkWeight :: real

definition noSymptomOptions :: SymptomPredictorOptions where
  "noSymptomOptions = \<lparr>opt_minCMScore = None, opt_daysBeforeOPK = None,
     opt_daysAfterOPK = None, opt_cmWeight = None, opt_opkWeight = None\<rparr>"

definition DEFAULT_SYMPTOM_OPTIONS :: RequiredSymptomOptions where
  "DEFAULT_SYMPTOM_OPTIONS = \<lparr>minCMScore = 3, daysBeforeOPK = 2, daysAfterOPK = 2,
     cmWeight = 0.6, opkWeight = 0.9\<rparr>"

definition mergeSymptomOptions :: "SymptomPredictorOptions \<Rightarrow> RequiredSymptomOptions" where
  "mergeSymptomOptions options =
     \<lparr>minCMScore = (case opt_minCMScore options of
          None \<Rightarrow> minCMScore DEFAULT_SYMPTOM_OPTIONS | Some v \<Rightarrow> v),
      daysBeforeOPK = (case opt_daysBeforeOPK options of
          None \<Rightarrow> daysBeforeOPK DEFAULT_SYMPTOM_OPTIONS | Some v \<Rightarrow> v),
      daysAfterOPK = (case opt_daysAfterOPK options of
          None \<Rightarrow> daysAfterOPK DEFAULT_SYMPTOM_OPTIONS | Some v \<Rightarrow> v),
      cmWeight = (case opt_cmWeight options of
          None \<Rightarrow> cmWeight DEFAULT_SYMPTOM_OPTIONS | Some v \<Rightarrow> v),
      opkWeight = (case opt_opkWeight options of
          None \<Rightarrow> opkWeight DEFAULT_SYMPTOM_OPTIONS | Some v \<Rightarrow> v)\<rparr>"

record DayFertilityData =
  df_date :: ISODateString
  cmScore :: real
  cmType :: "CervicalMucusType option"
  hasOPKPositive :: bool
  bbt :: "real option"
  fertilityScore :: real

text \<open>
  The \<open>Map\<close> from dates to the observations of that date, in insertion order of the
  keys: \<open>byDate.get(obs.date) || []\<close>, \<open>push\<close>, \<open>byDate.set\<close>.
\<close>
definition byDateAdd :: "(ISODateString \<times> Observation list) list \<Rightarrow> Observation
    \<Rightarrow> (ISODateString \<times> Observation list) list" where
  "byDateAdd byDate ob =
     (case map_of byDate (obs_date ob) of
        None \<Rightarrow> byDate @ [(obs_date ob, [ob])]
      | Some existing \<Rightarrow>
          map (\<lambda>(k, v). if k = obs_date ob then (k, existing @ [ob]) else (k, v)) byDate)"

definition dayDataOf :: "RequiredSymptomOptions \<Rightarrow> ISODateString \<times> Observation list
    \<Rightarrow> DayFertilityData" where
  "dayDataOf options entry =
     (let (d, obs) = entry;
          cmObs = find isCervicalMucus obs;
          opkObs = find isOPK obs;
          bbtObs = find isBBT obs;
          cmValue = (case map_option obs_value cmObs of
                       Some (CervicalMucusObs v) \<Rightarrow> Some v | _ \<Rightarrow> None);
          cmScore = (case cmValue of Some v \<Rightarrow> CM_FERTILITY_SCORES v | None \<Rightarrow> 0);
          hasOPKPositive = (case map_option obs_value opkObs of
                              Some (OPKObs v _) \<Rightarrow> v = Positive | _ \<Rightarrow> False);
          fertilityScore = 0 + (cmScore / 5) * cmWeight options
                             + (if hasOPKPositive then opkWeight options else 0)
      in \<lparr>df_date = d, cmScore = cmScore, cmType = cmValue, hasOPKPositive = hasOPKPositive,
          bbt = (case map_option obs_value bbtObs of Some (BBTObs t _) \<Rightarrow> Some t | _ \<Rightarrow> None),
          fertilityScore = min 1 fertilityScore\<rparr>)"

definition analyzeDays :: "Observation list \<Rightarrow> RequiredSymptomOptions \<Rightarrow> DayFertilityData list" where
  "analyzeDays observations options =
     (let byDate = foldl byDateAdd [] observations;
          dayData = map (dayDataOf options) byDate
      in sort_key (\<lambda>d. parseDate (df_date d)) dayData)"

definition findFertileWindow_s :: "TimeZone \<Rightarrow> DayFertilityData list \<Rightarrow> RequiredSymptomOptions
    \<Rightarrow> (ISODateString \<times> ISODateString \<times> ISODateString) option" where
  "findFertileWindow_s z dayData options =
     (if length dayData = 0 then None
      else
        let opkPositiveDays = filter hasOPKPositive dayData;
            highCMDays = filter (\<lambda>d. cmScore d \<ge> minCMScore options) dayData
        in if length opkPositiveDays > 0
           then
             let opkDay = hd opkPositiveDays;
                 start = addDays_s z (df_date opkDay) (- daysBeforeOPK options);
                 endD = addDays_s z (df_date opkDay) (daysAfterOPK options);
                 peak = addDays_s z (df_date opkDay) 1
             in Some (start, endD, peak)
           else if length highCMDays > 0
           then
             let peakDay = foldl (\<lambda>best day. if cmScore day > cmScore best then day else best)
                             (hd highCMDays) highCMDays;
                 start = df_date (hd highCMDays);
                 endD = addDays_s z (df_date peakDay) 2;
                 peak = addDays_s z (df_date peakDay) 1
             in Some (start, endD, peak)
           else None)"

definition calculateConfidence :: "DayFertilityData list \<Rightarrow> bool \<Rightarrow> bool \<Rightarrow> real" where
  "calculateConfidence dayData hasOPK hasCM =
     (let c0 = 40;
          c1 = (if hasOPK then c0 + 35 else c0);
          c2 = (if hasCM then c1 + 15 else c1);
          c3 = (if length dayData \<ge> 10 then c2 + 10
                else if length dayData \<ge> 5 then c2 + 5 else c2);
          c4 = (if hasOPK \<and> hasCM then c3 + 10 else c3)
      in min 95 c4)"

text \<open>The string literal each cervical-mucus variant stands for.\<close>
fun CervicalMucusType_literal :: "CervicalMucusType \<Rightarrow> string" where
  "CervicalMucusType_literal Dry = ''dry''"
| "CervicalMucusType_literal Sticky = ''sticky''"
| "CervicalMucusType_literal Creamy = ''creamy''"
| "CervicalMucusType_literal Watery = ''watery''"
| "CervicalMucusType_literal EggWhite = ''egg-white''"
| "CervicalMucusType_literal Spotting = ''spotting''"

definition predictFromSymptoms :: "Host \<Rightarrow> Observation list \<Rightarrow> ISODateString option
    \<Rightarrow> SymptomPredictorOptions \<Rightarrow> Prediction option" where
  "predictFromSymptoms h observations cycleStartDate options =
     (let opts = mergeSymptomOptions options;
          relevantObs = filter (\<lambda>ob. isCervicalMucus ob \<or> isOPK ob \<or> isBBT ob) observations
      in if length relevantObs = 0 then None
         else
           let dayData = analyzeDays relevantObs opts
           in case findFertileWindow_s (timeZone h) dayData opts of
                None \<Rightarrow> None
              | Some (wStart, wEnd, wPeak) \<Rightarrow>
                  let hasOPK = list_ex hasOPKPositive dayData;
                      hasCM = list_ex (\<lambda>d. cmScore d \<ge> minCMScore opts) dayData;
                      conf = calculateConfidence dayData hasOPK hasCM;
                      now = getTimestamp h;
                      notes1 = (if hasOPK then [''OPK positive detected''] else []);
                      notes2 = (if hasCM
                        then
                          let peakCM = foldl (\<lambda>best d. if cmScore d > cmScore best then d else best)
                                         (hd dayData) dayData
                          in [''Peak CM: '' @ (case cmType peakCM of
                                  None \<Rightarrow> ''undefined'' | Some v \<Rightarrow> CervicalMucusType_literal v)]
                        else [])
                  in Some \<lparr>idP = generateId h,
                            source = ''fertility-friend'',
                            fertileStart = wStart,
                            fertileEnd = wEnd,
                            ovulationDate = Some wPeak,
                            confidence = Some conf,
                            cycleId = None,
                            notesP = Some (''Symptom-based: '' @ join '', '' (notes1 @ notes2)),
                            createdAt = now,
                            updatedAt = now\<rparr>)"

subsection \<open>The calendar predictor\<close>

record Cycle =
  cyc_id :: string
  startDate :: ISODateString
  length_c :: int
  periodLength :: int
  cyc_notes :: "string option"
  cyc_createdAt :: string
  cyc_updatedAt :: string

record CalendarPredictorOptions =
  opt_daysBeforeOvulation :: "int option"
  opt_daysAfterOvulation :: "int option"
  opt_lutealPhaseLength :: "int option"
  opt_regularityBonus :: "real option"

record RequiredCalendarOptions =
  daysBeforeOvulation :: int
  daysAfterOvulation :: int
  lutealPhaseLength :: int
  regularityBonus :: real

definition noCalendarOptions :: CalendarPredictorOptions where
  "noCalendarOptions = \<lparr>opt_daysBeforeOvulation = None, opt_daysAfterOvulation = None,
     opt_lutealPhaseLength = None, opt_regularityBonus = None\<rparr>"

definition DEFAULT_CALENDAR_OPTIONS :: RequiredCalendarOptions where
  "DEFAULT_CALENDAR_OPTIONS = \<lparr>daysBeforeOvulation = 5, daysAfterOvulation = 1,
     lutealPhaseLength = 14, regularityBonus = 10\<rparr>"

definition mergeCalendarOptions :: "CalendarPredictorOptions \<Rightarrow> RequiredCalendarOptions" where
  "mergeCalendarOptions options =
     \<lparr>daysBeforeOvulation = (case opt_daysBeforeOvulation options of
          None \<Rightarrow> daysBeforeOvulation DEFAULT_CALENDAR_OPTIONS | Some v \<Rightarrow> v),
      daysAfterOvulation = (case opt_daysAfterOvulation options of
          None \<Rightarrow> daysAfterOvulation DEFAULT_CALENDAR_OPTIONS | Some v \<Rightarrow> v),
      lutealPhaseLength = (case opt_lutealPhaseLength options of
          None \<Rightarrow> lutealPhaseLength DEFAULT_CALENDAR_OPTIONS | Some v \<Rightarrow> v),
      regularityBonus = (case opt_regularityBonus options of
          None \<Rightarrow> regularityBonus DEFAULT_CALENDAR_OPTIONS | Some v \<Rightarrow> v)\<rparr>"

definition calculateCycleVariability :: "Cycle list \<Rightarrow> real" where
  "calculateCycleVariability cycles =
     (if length cycles < 2 then 5
      else
        let lengths = map (\<lambda>c. real_of_int (length_c c)) cycles;
            mean = sum_list lengths / real (length lengths);
            variance = sum_list (map (\<lambda>l. (l - mean)\<^sup>2) lengths) / real (length lengths)
        in sqrt variance)"

definition calculateAverageCycleLength :: "Cycle list \<Rightarrow> int" where
  "calculateAverageCycleLength cycles =
     (if length cycles = 0 then 28
      else
        let totalLength = sum_list (map (\<lambda>c. real_of_int (length_c c)) cycles)
        in Math_round (totalLength / real (length cycles)))"

text \<open>\<open>x.toFixed(1)\<close> for a non-negative \<open>x\<close>: the nearest tenth, ties upwards.\<close>
definition toFixed1 :: "real \<Rightarrow> string" where
  "toFixed1 x = (let n = nat \<lfloor>10 * x + 1 / 2\<rfloor>
                 in showNat (n div 10) @ ''.'' @ showNat (n mod 10))"

text \<open>The character \<open>\<plusminus>\<close> of the notes is the code unit \<open>0xB1\<close>.\<close>
definition predictFromCalendar :: "Host \<Rightarrow> ISODateString \<Rightarrow> Cycle list
    \<Rightarrow> CalendarPredictorOptions \<Rightarrow> Prediction" where
  "predictFromCalendar h currentCycleStart historicalCycles options =
     (let opts = mergeCalendarOptions options;
          avgCycleLength = calculateAverageCycleLength historicalCycles;
          variability = calculateCycleVariability historicalCycles;
          ovulationDay = avgCycleLength - lutealPhaseLength opts;
          fertileStartDay = ovulationDay - daysBeforeOvulation opts;
          fertileEndDay = ovulationDay + daysAfterOvulation opts;
          ovulation = addDays currentCycleStart ovulationDay;
          fStart = addDays currentCycleStart fertileStartDay;
          fEnd = addDays currentCycleStart fertileEndDay;
          c0 = 55;
          c1 = (if length historicalCycles \<ge> 6 then c0 + 10
                else if length historicalCycles \<ge> 3 then c0 + 5 else c0);
          c2 = (if variability \<le> 2 then c1 + regularityBonus opts
                else if variability \<le> 4 then c1 + regularityBonus opts / 2
                else if variability > 6 then c1 - 15 else c1);
          conf = max 20 (min 80 c2);
          now = getTimestamp h
      in \<lparr>idP = generateId h,
          source = ''manual'',
          fertileStart = fStart,
          fertileEnd = fEnd,
          ovulationDate = Some ovulation,
          confidence = Some conf,
          cycleId = None,
          notesP = Some (''Calendar method: Based on '' @ showNat (length historicalCycles)
                     @ '' cycles, avg '' @ showInt avgCycleLength
                     @ '' days, variability '' @ [char_of (0xB1 :: nat)] @ toFixed1 variability
                     @ '' days''),
          createdAt = now,
          updatedAt = now\<rparr>)"

section \<open>The CSV normalizer\<close>

text \<open>
  Cells are strings of 8-bit characters. \<open>trim\<close> strips the ASCII white space,
  \<open>toLowerCase\<close> maps the ASCII capitals.
\<close>

definition isSpace :: "char \<Rightarrow> bool" where
  "isSpace c = (c \<in> set [CHR '' '', CHR 0x09, CHR 0x0A, CHR 0x0B, CHR 0x0C, CHR 0x0D])"

definition trim :: "string \<Rightarrow> string" where
  "trim s = rev (dropWhile isSpace (rev (dropWhile isSpace s)))"

definition toLowerChar :: "char \<Rightarrow> char" where
  "toLowerChar c = (let n = (of_char c :: nat) in if 65 \<le> n \<and> n \<le> 90 then char_of (n + 32) else c)"

definition toLowerCase :: "string \<Rightarrow> string" where
  "toLowerCase s = map toLowerChar s"

definition isDigit :: "char \<Rightarrow> bool" where
  "isDigit c = (let n = (of_char c :: nat) in 48 \<le> n \<and> n \<le> 57)"

text \<open>\<open>s.padStart(2, '0')\<close>\<close>
definition padStart2 :: "string \<Rightarrow> string" where
  "padStart2 s = replicate (2 - length s) (CHR ''0'') @ s"

text \<open>The fields of a string between the occurrences of a separator.\<close>
fun splitOn :: "char \<Rightarrow> string \<Rightarrow> string list" where
  "splitOn sep [] = [[]]"
| "splitOn sep (c # cs) =
     (if c = sep then [] # splitOn sep cs
      else case splitOn sep cs of [] \<Rightarrow> [[c]] | f # fs \<Rightarrow> (c # f) # fs)"

definition digits :: "nat \<Rightarrow> nat \<Rightarrow> string \<Rightarrow> bool" where
  "digits lo hi s = (lo \<le> length s \<and> length s \<le> hi \<and> list_all isDigit s)"

text \<open>\<open>/^\d{4}-\d{2}-\d{2}$/\<close>\<close>
definition isoMatch :: "string \<Rightarrow> bool" where
  "isoMatch s = (case splitOn (CHR ''-'') s of
                   [y, m, d] \<Rightarrow> digits 4 4 y \<and> digits 2 2 m \<and> digits 2 2 d
                 | _ \<Rightarrow> False)"

text \<open>\<open>/^(\d{1,2})\/(\d{1,2})\/(\d{4})$/\<close> with its three groups.\<close>
definition slashMatch :: "string \<Rightarrow> (string \<times> string \<times> string) option" where
  "slashMatch s = (case splitOn (CHR ''/'') s of
                     [a, b, y] \<Rightarrow> if digits 1 2 a \<and> digits 1 2 b \<and> digits 4 4 y
                                  then Some (a, b, y) else None
                   | _ \<Rightarrow> None)"

record ImportError =
  err_row :: nat
  err_field :: string
  err_message :: string
  err_value :: "string option"

text \<open>
  \<open>parseDate\<close> of the import module. The result \<open>{date: null, error}\<close> is \<open>Inl error\<close>,
  the result \<open>{date}\<close> is \<open>Inr date\<close>. The last resort \<open>new Date(cleaned)\<close> parses by
  rules of the host; \<open>freeForm\<close> gives the ISO date of the instant it finds, if any.
\<close>
definition parseDate_ff :: "(string \<Rightarrow> string option) \<Rightarrow> string \<Rightarrow> nat \<Rightarrow> ImportError + string" where
  "parseDate_ff freeForm dateStr rowNum =
     (if dateStr = [] \<or> trim dateStr = []
      then Inl \<lparr>err_row = rowNum, err_field = ''Date'', err_message = ''Date is required'',
                err_value = Some dateStr\<rparr>
      else
        let cleaned = trim dateStr
        in if isoMatch cleaned then Inr cleaned
           else case slashMatch cleaned of
             Some (month, day, year) \<Rightarrow> Inr (year @ ''-'' @ padStart2 month @ ''-'' @ padStart2 day)
           | None \<Rightarrow>
              (case slashMatch cleaned of
                 Some (day, month, year) \<Rightarrow>
                   Inr (year @ ''-'' @ padStart2 month @ ''-'' @ padStart2 day)
               | None \<Rightarrow>
                  (case freeForm cleaned of
                     Some parsed \<Rightarrow> Inr parsed
                   | None \<Rightarrow>
                       Inl \<lparr>err_row = rowNum, err_field = ''Date'',
                            err_message = ''Invalid date format: '' @ cleaned,
                            err_value = Some cleaned\<rparr>)))"

datatype FFCervicalMucus = FF_dry | FF_sticky | FF_creamy | FF_watery | FF_eggwhite | FF_unknown

datatype FFOPKResult = FF_negative | FF_positive | FF_peak | FF_unknownOPK

definition CM_MAP :: "string \<rightharpoonup> FFCervicalMucus" where
  "CM_MAP = map_of
     [(''dry'', FF_dry), (''d'', FF_dry), (''none'', FF_dry),
      (''sticky'', FF_sticky), (''s'', FF_sticky), (''tacky'', FF_sticky),
      (''creamy'', FF_creamy), (''c'', FF_creamy), (''lotiony'', FF_creamy),
      (''watery'', FF_watery), (''w'', FF_watery),
      (''eggwhite'', FF_eggwhite), (''egg white'', FF_eggwhite), (''ew'', FF_eggwhite),
      (''e'', FF_eggwhite), (''stretchy'', FF_eggwhite)]"

definition OPK_MAP :: "string \<rightharpoonup> FFOPKResult" where
  "OPK_MAP = map_of
     [(''negative'', FF_negative), (''neg'', FF_negative), (''n'', FF_negative),
      (''-'', FF_negative),
      (''positive'', FF_positive), (''pos'', FF_positive), (''p'', FF_positive),
      (''+'', FF_positive),
      (''peak'', FF_peak), (''high'', FF_positive), (''low'', FF_negative)]"

text \<open>The argument \<open>None\<close> is an absent cell (\<open>undefined\<close>).\<close>
definition parseCervicalMucus :: "string option \<Rightarrow> FFCervicalMucus option" where
  "parseCervicalMucus cmStr =
     (case cmStr of
        None \<Rightarrow> None
      | Some s \<Rightarrow>
          if s = [] \<or> trim s = [] then None
          else
            let normalized = toLowerCase (trim s)
            in (case CM_MAP normalized of Some v \<Rightarrow> Some v | None \<Rightarrow> Some FF_unknown))"

definition parseOPK :: "string option \<Rightarrow> FFOPKResult option" where
  "parseOPK opkStr =
     (case opkStr of
        None \<Rightarrow> None
      | Some s \<Rightarrow>
          if s = [] \<or> trim s = [] then None
          else
            let normalized = toLowerCase (trim s)
            in (case OPK_MAP normalized of Some v \<Rightarrow> Some v | None \<Rightarrow> Some FF_unknownOPK))"

fun mapFFCervicalMucus :: "FFCervicalMucus \<Rightarrow> CervicalMucusType" where
  "mapFFCervicalMucus FF_dry = Dry"
| "mapFFCervicalMucus FF_sticky = Sticky"
| "mapFFCervicalMucus FF_creamy = Creamy"
| "mapFFCervicalMucus FF_watery = Watery"
| "mapFFCervicalMucus FF_eggwhite = EggWhite"
| "mapFFCervicalMucus FF_unknown = Dry"

fun mapFFOPKResult :: "FFOPKResult \<Rightarrow> OPKResult" where
  "mapFFOPKResult FF_negative = Negative"
| "mapFFOPKResult FF_positive = Positive"
| "mapFFOPKResult FF_peak = Positive"
| "mapFFOPKResult FF_unknownOPK = Invalid"

text \<open>The string literal each OPK variant stands for.\<close>
fun OPKResult_literal :: "OPKResult \<Rightarrow> string" where
  "OPKResult_literal Negative = ''negative''"
| "OPKResult_literal AlmostPositive = ''almost-positive''"
| "OPKResult_literal Positive = ''positive''"
| "OPKResult_literal Invalid = ''invalid''"

text \<open>
  The value of the cervical-mucus observation that \<open>convertToObservations\<close> emits for a
  raw row, if it emits one: \<open>raw.cervicalMucus && raw.cervicalMucus !== 'unknown'\<close>.
\<close>
definition convertCervicalMucus :: "FFCervicalMucus option \<Rightarrow> CervicalMucusType option" where
  "convertCervicalMucus rawCM =
     (case rawCM of
        None \<Rightarrow> None
      | Some cm \<Rightarrow> if cm \<noteq> FF_unknown then Some (mapFFCervicalMucus cm) else None)"

text \<open>Likewise for the OPK observation: \<open>raw.opk && raw.opk !== 'unknown'\<close>.\<close>
definition convertOPK :: "FFOPKResult option \<Rightarrow> OPKResult option" where
  "convertOPK rawOPK =
     (case rawOPK of
        None \<Rightarrow> None
      | Some r \<Rightarrow> if r \<noteq> FF_unknownOPK then Some (mapFFOPKResult r) else None)"

section \<open>Notions used in the statements\<close>

subsection \<open>The parts of a reconciliation\<close>

text \<open>The effective weights of a call: the defaults overridden by the options.\<close>
definition weightsOf :: "Rounding \<Rightarrow> ReconcilerOptions \<Rightarrow> SourceWeights" where
  "weightsOf r options = DEFAULT_WEIGHTS r ++ weightsO (mergeOptions r options)"

text \<open>Admission: enough predictions, and at least one of them valid.\<close>
definition admitted :: "Rounding \<Rightarrow> Prediction list \<Rightarrow> ReconcilerOptions \<Rightarrow> bool" where
  "admitted r ps options \<longleftrightarrow>
     \<not> int (length ps) < minSources (mergeOptions r options) \<and> validPredictionsOf ps \<noteq> []"

text \<open>The effective threshold of a call.\<close>
definition thresholdOf :: "Rounding \<Rightarrow> Prediction list \<Rightarrow> ReconcilerOptions \<Rightarrow> real" where
  "thresholdOf r ps options =
     effectiveThreshold r (mergeOptions r options)
       (calculateSourceAgreement r (validPredictionsOf ps))"

text \<open>The day-probability series of a call.\<close>
definition seriesOf :: "Rounding \<Rightarrow> Host \<Rightarrow> Prediction list \<Rightarrow> ReconcilerOptions \<Rightarrow> DayScore list" where
  "seriesOf r h ps options =
     buildDayScores r (timeZone h) (validPredictionsOf ps) (weightsOf r options)"

text \<open>The window that a call extracts, if any; \<open>None\<close> leads to the fallback.\<close>
definition windowOf :: "Rounding \<Rightarrow> Host \<Rightarrow> Prediction list \<Rightarrow> ReconcilerOptions
    \<Rightarrow> (Date \<times> Date \<times> Date) option" where
  "windowOf r h ps options =
     findFertileWindow r (seriesOf r h ps options) (thresholdOf r ps options)"

text \<open>The confidence that a call reports, if it returns a result.\<close>
definition confidenceOf :: "Rounding \<Rightarrow> Host \<Rightarrow> Prediction list \<Rightarrow> ReconcilerOptions \<Rightarrow> real option" where
  "confidenceOf r h ps options = map_option r_confidence (reconcile r h ps options)"

text \<open>The window of a result.\<close>
definition resultWindow :: "ReconciledPrediction \<Rightarrow> Date \<times> Date" where
  "resultWindow res = (r_fertileStart res, r_fertileEnd res)"

text \<open>The projection of a result on its window and ovulation date.\<close>
definition windowAndOvulation :: "ReconciledPrediction \<Rightarrow> Date \<times> Date option \<times> Date" where
  "windowAndOvulation res = (r_fertileStart res, r_ovulationDate res, r_fertileEnd res)"

text \<open>The outlier source tags of a result.\<close>
definition outlierTags :: "ReconciledPrediction \<Rightarrow> PredictionSource list" where
  "outlierTags res = outliers (diagnostics res)"

subsection \<open>Exact quantities\<close>

text \<open>
  The contribution of one prediction to the score of the civil date \<open>D\<close>, in day
  numbers and exact arithmetic: full inside the window, Gaussian decay outside, kept
  only above 0.1.
\<close>
definition dayContribution :: "SourceWeights \<Rightarrow> ISODateString \<Rightarrow> Prediction \<Rightarrow> real" where
  "dayContribution ws D p =
     (let w = getWeight (source p) ws; c = sourceConfidence exact p
      in if fertileStart p \<le> D \<and> D \<le> fertileEnd p then w * c
         else
           let k = min \<bar>D - fertileStart p\<bar> \<bar>D - fertileEnd p\<bar>;
               s = w * c * exp (- (real_of_int k)\<^sup>2 / 2)
           in if s > 0.1 then s else 0)"

text \<open>The total of the effective weights.\<close>
definition weightSum :: "Prediction list \<Rightarrow> SourceWeights \<Rightarrow> real" where
  "weightSum ps ws = sum_list (map (\<lambda>p. getWeight (source p) ws) ps)"

text \<open>The probability of a date: the contributions over the total weight, 0 when the total is not positive.\<close>
definition dayProbability :: "Prediction list \<Rightarrow> SourceWeights \<Rightarrow> ISODateString \<Rightarrow> real" where
  "dayProbability ps ws D =
     (if weightSum ps ws > 0
      then sum_list (map (dayContribution ws D) ps) / weightSum ps ws else 0)"

text \<open>The sum of the full scores \<open>w * c\<close> of the predictions.\<close>
definition fullScore :: "Prediction list \<Rightarrow> SourceWeights \<Rightarrow> real" where
  "fullScore ps ws = sum_list (map (\<lambda>p. getWeight (source p) ws * sourceConfidence exact p) ps)"

text \<open>The union range of a non-empty list of predictions.\<close>
definition minStart :: "Prediction list \<Rightarrow> ISODateString" where
  "minStart ps = Min (set (map fertileStart ps))"

definition maxEnd :: "Prediction list \<Rightarrow> ISODateString" where
  "maxEnd ps = Max (set (map fertileEnd ps))"

text \<open>The day-probability that a series reports for the civil date \<open>D\<close>, if any.\<close>
definition probabilityAt :: "DayScore list \<Rightarrow> ISODateString \<Rightarrow> real option" where
  "probabilityAt ds D = map_option probability (find (\<lambda>d. date d = D) ds)"

text \<open>Mean and population variance of a list of day numbers.\<close>
definition meanOf :: "int list \<Rightarrow> real" where
  "meanOf xs = sum_list (map real_of_int xs) / real (length xs)"

definition varianceOf :: "int list \<Rightarrow> real" where
  "varianceOf xs = sum_list (map (\<lambda>x. (real_of_int x - meanOf xs)\<^sup>2) xs) / real (length xs)"

text \<open>The average of the variances of the starts and of the ends.\<close>
definition avgVarianceOf :: "Prediction list \<Rightarrow> real" where
  "avgVarianceOf v = (varianceOf (map fertileStart v) + varianceOf (map fertileEnd v)) / 2"

text \<open>The weighted centroid of a list of predictions, in day numbers.\<close>
definition centroidStart :: "Prediction list \<Rightarrow> SourceWeights \<Rightarrow> real" where
  "centroidStart ps ws =
     sum_list (map (\<lambda>p. real_of_int (fertileStart p) * getWeight (source p) ws) ps)
       / weightSum ps ws"

definition centroidEnd :: "Prediction list \<Rightarrow> SourceWeights \<Rightarrow> real" where
  "centroidEnd ps ws =
     sum_list (map (\<lambda>p. real_of_int (fertileEnd p) * getWeight (source p) ws) ps)
       / weightSum ps ws"

text \<open>A far outlier: start and end each more than 3 days from the centroid.\<close>
definition farOutlier :: "Prediction list \<Rightarrow> SourceWeights \<Rightarrow> Prediction \<Rightarrow> bool" where
  "farOutlier ps ws q \<longleftrightarrow>
     3 < \<bar>real_of_int (fertileStart q) - centroidStart ps ws\<bar>
     \<and> 3 < \<bar>real_of_int (fertileEnd q) - centroidEnd ps ws\<bar>"

subsection \<open>The predictors and the import\<close>

text \<open>The window and the ovulation date of a prediction.\<close>
definition windowOfPrediction :: "Prediction \<Rightarrow> ISODateString \<times> ISODateString \<times> ISODateString option" where
  "windowOfPrediction p = (fertileStart p, fertileEnd p, ovulationDate p)"

text \<open>The OPK result an observation carries, if it is an OPK observation.\<close>
definition opkValueOf :: "Observation \<Rightarrow> OPKResult option" where
  "opkValueOf ob = (case obs_value ob of OPKObs v _ \<Rightarrow> Some v | _ \<Rightarrow> None)"

text \<open>Whether any OPK observation recorded on a date is positive.\<close>
definition anyOPKPositiveOn :: "Observation list \<Rightarrow> ISODateString \<Rightarrow> bool" where
  "anyOPKPositiveOn obs d =
     list_ex (\<lambda>ob. obs_date ob = d \<and> opkValueOf ob = Some Positive) obs"

text \<open>The observations that the symptom predictor reads.\<close>
definition relevantObs :: "Observation list \<Rightarrow> Observation list" where
  "relevantObs observations =
     filter (\<lambda>ob. isCervicalMucus ob \<or> isOPK ob \<or> isBBT ob) observations"

text \<open>Normalisation of one cell: the synonym-table parse, then the conversion.\<close>
definition normalizeCM :: "string \<Rightarrow> CervicalMucusType option" where
  "normalizeCM s = convertCervicalMucus (parseCervicalMucus (Some s))"

definition normalizeOPK :: "string \<Rightarrow> OPKResult option" where
  "normalizeOPK s = convertOPK (parseOPK (Some s))"

subsection \<open>Hosts\<close>

text \<open>
  The time zone UTC, and the time zone of New York in 2025: five hours behind UTC,
  with daylight saving time from 2025-03-09 07:00 UTC to 2025-11-02 06:00 UTC.
\<close>
definition utc :: TimeZone where
  "utc = \<lparr>standardOffset = 0, inDST = (\<lambda>t. False)\<rparr>"

definition newYork :: TimeZone where
  "newYork = \<lparr>standardOffset = - 5 * msPerHour,
               inDST = (\<lambda>t. 1741503600000 \<le> t \<and> t < 1762063200000)\<rparr>"

text \<open>A date formatter for inputs whose explanation strings are not looked at.\<close>
definition noFormat :: "Date \<Rightarrow> string" where
  "noFormat d = []"

text \<open>
  Two readings of a host in UTC: different UUIDs, clock values 250 ms apart; and a
  host in New York.
\<close>
definition hostA :: Host where
  "hostA = \<lparr>timeZone = utc, toLocaleDateString = noFormat,
             randomUUID = ''3b241101-e2bb-4255-8caf-4136c566a962'',
             isoNow = ''2025-02-01T08:00:00.000Z''\<rparr>"

definition hostB :: Host where
  "hostB = \<lparr>timeZone = utc, toLocaleDateString = noFormat,
             randomUUID = ''7c9e6679-7425-40de-944b-e07fc1f90ae7'',
             isoNow = ''2025-02-01T08:00:00.250Z''\<rparr>"

definition hostNewYork :: Host where
  "hostNewYork = \<lparr>timeZone = newYork, toLocaleDateString = noFormat,
                   randomUUID = ''3b241101-e2bb-4255-8caf-4136c566a962'',
                   isoNow = ''2025-02-01T08:00:00.000Z''\<rparr>"

subsection \<open>Concrete inputs\<close>

text \<open>
  A prediction given by its source, window, ovulation date and confidence; day 20129
  is 2025-02-10.
\<close>
definition makePrediction :: "PredictionSource \<Rightarrow> ISODateString \<Rightarrow> ISODateString
    \<Rightarrow> ISODateString option \<Rightarrow> real option \<Rightarrow> Prediction" where
  "makePrediction src fStart fEnd ov conf =
     \<lparr>idP = ''id'', source = src, fertileStart = fStart, fertileEnd = fEnd,
      ovulationDate = ov, confidence = conf, cycleId = None, notesP = None,
      createdAt = ''2025-01-01T00:00:00.000Z'', updatedAt = ''2025-01-01T00:00:00.000Z''\<rparr>"

text \<open>An OPK observation of a date.\<close>
definition makeOPK :: "ISODateString \<Rightarrow> OPKResult \<Rightarrow> Observation" where
  "makeOPK d v = \<lparr>obs_id = ''obs'', obs_date = d, obs_value = OPKObs v None, obs_notes = None,
     obs_createdAt = ''2025-01-01T00:00:00.000Z'', obs_updatedAt = ''2025-01-01T00:00:00.000Z''\<rparr>"

text \<open>Two OPK observations on 2025-02-12: negative first, positive second.\<close>
definition opkTwice :: "Observation list" where
  "opkTwice = [makeOPK 20131 Negative, makeOPK 20131 Positive]"

text \<open>One positive OPK observation on 2025-03-08, the eve of the change to daylight saving time.\<close>
definition opkMarch :: "Observation list" where
  "opkMarch = [makeOPK 20155 Positive]"

text \<open>
  A prediction of low confidence whose ovulation date lies after its own window, and
  one whose ovulation date lies inside.
\<close>
definition lowConfidenceFlo :: Prediction where
  "lowConfidenceFlo = makePrediction ''flo'' 20129 20134 (Some 20140) (Some 10)"

definition consistentFlo :: Prediction where
  "consistentFlo = makePrediction ''flo'' 20129 20134 (Some 20133) (Some 10)"

text \<open>
  A prediction that is not admitted (confidence 0) although its source has the
  highest weight, and three admitted predictions of confidence 10 three weeks apart:
  one of the source flo and two of the source fertility-friend.
\<close>
definition fallbackList :: "Prediction list" where
  "fallbackList =
     [makePrediction ''natural-cycles'' 20129 20134 None (Some 0),
      makePrediction ''flo'' 20129 20134 (Some 20131) (Some 10),
      makePrediction ''fertility-friend'' 20150 20155 (Some 20152) (Some 10),
      makePrediction ''fertility-friend'' 20170 20175 (Some 20172) (Some 10)]"

text \<open>The admitted predictions of that list.\<close>
definition fallbackValid :: "Prediction list" where
  "fallbackValid =
     [makePrediction ''flo'' 20129 20134 (Some 20131) (Some 10),
      makePrediction ''fertility-friend'' 20150 20155 (Some 20152) (Some 10),
      makePrediction ''fertility-friend'' 20170 20175 (Some 20172) (Some 10)]"

text \<open>
  A flo prediction of confidence 90 with the window 2025-03-07 to 2025-03-11 (days
  20154 to 20158), across the change to daylight saving time in New York.
\<close>
definition floMarch :: Prediction where
  "floMarch = makePrediction ''flo'' 20154 20158 None (Some 90)"

section \<open>The structure of reconcile\<close>

lemma reconcile_None_iff:
  "reconcile r h ps options = None \<longleftrightarrow>
     int (length ps) < minSources (mergeOptions r options) \<or> validPredictionsOf ps = []"
  by (auto simp: reconcile_def Let_def split: option.splits)

lemma reconcile_not_admitted: "\<not> admitted r ps options \<Longrightarrow> reconcile r h ps options = None"
  by (auto simp: reconcile_def Let_def admitted_def)

lemma reconcile_fallback:
  assumes "admitted r ps options" and "windowOf r h ps options = None"
  shows "reconcile r h ps options =
     Some \<lparr>r_fertileStart = parseDate (fertileStart (fallbackBest (validPredictionsOf ps) (weightsOf r options))),
           r_fertileEnd = parseDate (fertileEnd (fallbackBest (validPredictionsOf ps) (weightsOf r options))),
           r_ovulationDate = map_option parseDate
              (ovulationDate (fallbackBest (validPredictionsOf ps) (weightsOf r options))),
           r_confidence = max (lit r 0.2) (fmul r (calculateSourceAgreement r (validPredictionsOf ps)) 0.5),
           explain = [''Low confidence: Could not reconcile predictions'',
                      ''Falling back to ''
                        @ source (fallbackBest (validPredictionsOf ps) (weightsOf r options))
                        @ '' prediction''],
           diagnostics = \<lparr>sourceAgreement = calculateSourceAgreement r (validPredictionsOf ps),
              outliers = identifyOutliers r (validPredictionsOf ps) (weightsOf r options),
              weights = weightsOf r options,
              dayScores = seriesOf r h ps options,
              inputPredictions = length (validPredictionsOf ps)\<rparr>\<rparr>"
  using assms
  by (simp add: reconcile_def Let_def admitted_def windowOf_def thresholdOf_def weightsOf_def
      seriesOf_def)

lemma reconcile_window:
  assumes "admitted r ps options" and "windowOf r h ps options = Some (wStart, wEnd, wPeak)"
  shows "reconcile r h ps options =
     Some \<lparr>r_fertileStart = wStart, r_fertileEnd = wEnd, r_ovulationDate = Some wPeak,
           r_confidence = finalConfidence r (calculateSourceAgreement r (validPredictionsOf ps))
              (length (validPredictionsOf ps))
              (length (identifyOutliers r (validPredictionsOf ps) (weightsOf r options))),
           explain = generateExplanations r h (validPredictionsOf ps)
              (seriesOf r h ps options)
              (calculateSourceAgreement r (validPredictionsOf ps))
              (identifyOutliers r (validPredictionsOf ps) (weightsOf r options)) wStart wEnd,
           diagnostics = \<lparr>sourceAgreement = calculateSourceAgreement r (validPredictionsOf ps),
              outliers = identifyOutliers r (validPredictionsOf ps) (weightsOf r options),
              weights = weightsOf r options,
              dayScores = seriesOf r h ps options,
              inputPredictions = length (validPredictionsOf ps)\<rparr>\<rparr>"
  using assms
  by (simp add: reconcile_def Let_def admitted_def windowOf_def thresholdOf_def weightsOf_def
      seriesOf_def)

lemma reconcile_diagnostics:
  assumes "admitted r ps options"
  shows "map_option diagnostics (reconcile r h ps options) =
     Some \<lparr>sourceAgreement = calculateSourceAgreement r (validPredictionsOf ps),
              outliers = identifyOutliers r (validPredictionsOf ps) (weightsOf r options),
              weights = weightsOf r options,
              dayScores = seriesOf r h ps options,
              inputPredictions = length (validPredictionsOf ps)\<rparr>"
proof (cases "windowOf r h ps options")
  case None
  then show ?thesis by (simp add: reconcile_fallback[OF assms])
next
  case (Some w)
  then show ?thesis by (cases w) (simp add: reconcile_window[OF assms])
qed

lemma findFertileWindow_None_iff:
  "findFertileWindow r ds th = None \<longleftrightarrow> (\<forall>d \<in> set ds. probability d < th)"
  by (auto simp: findFertileWindow_def Let_def filter_empty_conv not_le)

lemma windowOf_None_iff:
  "windowOf r h ps options = None \<longleftrightarrow>
     (\<forall>d \<in> set (seriesOf r h ps options). probability d < thresholdOf r ps options)"
  by (simp add: windowOf_def findFertileWindow_None_iff)

lemma minSources_default [simp]: "minSources (mergeOptions r noOptions) = 1"
  by (simp add: mergeOptions_def noOptions_def DEFAULT_OPTIONS_def)

lemma hd_insort_key:
  "hd (insort_key f x ys) = (if ys = [] \<or> f x \<le> f (hd ys) then x else hd ys)"
  by (cases ys) auto

lemma sort_key_Nil_iff [simp]: "sort_key f xs = [] \<longleftrightarrow> xs = []"
  by (metis length_sort length_0_conv)

lemma hd_sort_key_first_min:
  fixes f :: "'a \<Rightarrow> real"
  assumes "xs \<noteq> []"
  shows "\<exists>i < length xs. hd (sort_key f xs) = xs ! i
            \<and> (\<forall>j < length xs. f (xs ! i) \<le> f (xs ! j))
            \<and> (\<forall>j < i. f (xs ! i) < f (xs ! j))"
  using assms
proof (induction xs)
  case Nil
  then show ?case by simp
next
  case (Cons x xs)
  show ?case
  proof (cases "xs = []")
    case True
    then show ?thesis by simp
  next
    case False
    from Cons.IH[OF False] obtain i where i: "i < length xs" "hd (sort_key f xs) = xs ! i"
      "\<forall>j < length xs. f (xs ! i) \<le> f (xs ! j)" "\<forall>j < i. f (xs ! i) < f (xs ! j)"
      by blast
    show ?thesis
    proof (cases "f x \<le> f (xs ! i)")
      case True
      have "hd (sort_key f (x # xs)) = x"
        using True i(2) False by (simp add: hd_insort_key)
      moreover have "\<forall>j < length (x # xs). f x \<le> f ((x # xs) ! j)"
      proof (intro allI impI)
        fix j assume "j < length (x # xs)"
        then show "f x \<le> f ((x # xs) ! j)"
          using True i(3) by (cases j) (auto intro: order_trans)
      qed
      ultimately show ?thesis by (intro exI[of _ 0]) simp
    next
      case nle: False
      have h: "hd (sort_key f (x # xs)) = (x # xs) ! Suc i"
        using nle i(2) False by (simp add: hd_insort_key)
      have a: "\<forall>j < length (x # xs). f ((x # xs) ! Suc i) \<le> f ((x # xs) ! j)"
      proof (intro allI impI)
        fix j assume "j < length (x # xs)"
        then show "f ((x # xs) ! Suc i) \<le> f ((x # xs) ! j)"
          using nle i(3) by (cases j) auto
      qed
      have b: "\<forall>j < Suc i. f ((x # xs) ! Suc i) < f ((x # xs) ! j)"
      proof (intro allI impI)
        fix j assume "j < Suc i"
        then show "f ((x # xs) ! Suc i) < f ((x # xs) ! j)"
          using nle i(4) by (cases j) auto
      qed
      from h a b i(1) show ?thesis by (intro exI[of _ "Suc i"]) simp
    qed
  qed
qed

lemma fallbackBest_in: "v \<noteq> [] \<Longrightarrow> fallbackBest v ws \<in> set v"
  by (metis fallbackBest_def hd_in_set set_sort sort_key_Nil_iff)

lemma fallbackBest_first_heaviest:
  assumes "v \<noteq> []"
  shows "\<exists>i < length v. fallbackBest v ws = v ! i
            \<and> (\<forall>j < length v. getWeight (source (v ! j)) ws \<le> getWeight (source (v ! i)) ws)
            \<and> (\<forall>j < i. getWeight (source (v ! j)) ws < getWeight (source (v ! i)) ws)"
  using hd_sort_key_first_min[OF assms, of "\<lambda>p. - getWeight (source p) ws"]
  unfolding fallbackBest_def by simp

section \<open>The window scan\<close>

lemma windowScan_inv:
  assumes "windowScan r prevDate ts i (bs, bl, cs, cl) = (bs', bl', cs', cl')"
    and "1 \<le> bl" "1 \<le> cl" "bs + bl \<le> i" "cs + cl = i"
  shows "1 \<le> bl' \<and> 1 \<le> cl' \<and> bs' + bl' \<le> i + length ts \<and> cs' + cl' = i + length ts"
  using assms
proof (induction ts arbitrary: prevDate i bs bl cs cl)
  case Nil
  then show ?case by simp
next
  case (Cons t ts)
  show ?case
  proof (cases "daysBetween r t prevDate = 1")
    case True
    with Cons.prems have "windowScan r t ts (i + 1) (bs, bl, cs, cl + 1) = (bs', bl', cs', cl')"
      by simp
    from Cons.IH[OF this] Cons.prems(2-) show ?thesis by simp
  next
    case False
    show ?thesis
    proof (cases "cl > bl")
      case True
      with False Cons.prems have "windowScan r t ts (i + 1) (cs, cl, i, 1) = (bs', bl', cs', cl')"
        by simp
      from Cons.IH[OF this] Cons.prems(2-) show ?thesis by simp
    next
      case nb: False
      with False Cons.prems have "windowScan r t ts (i + 1) (bs, bl, i, 1) = (bs', bl', cs', cl')"
        by simp
      from Cons.IH[OF this] Cons.prems(2-) show ?thesis by simp
    qed
  qed
qed

lemma windowDaysOf_slice:
  assumes "sortedDays \<noteq> []"
  shows "\<exists>i n. windowDaysOf r sortedDays = take n (drop i sortedDays) \<and> 1 \<le> n
            \<and> i + n \<le> length sortedDays"
proof -
  let ?times = "map (\<lambda>d. parseDate (date d)) sortedDays"
  obtain bs bl cs cl where scan: "windowScan r (hd ?times) (tl ?times) 1 (0, 1, 0, 1) = (bs, bl, cs, cl)"
    by (metis prod_cases4)
  have len: "1 + length (tl ?times) = length sortedDays"
    using assms by (cases sortedDays) auto
  from windowScan_inv[OF scan] len
  have inv: "1 \<le> bl" "1 \<le> cl" "bs + bl \<le> length sortedDays" "cs + cl = length sortedDays"
    by auto
  show ?thesis
  proof (cases "cl > bl")
    case True
    then have "windowDaysOf r sortedDays = take cl (drop cs sortedDays)"
      using scan by (simp add: windowDaysOf_def Let_def)
    with inv show ?thesis by (intro exI[of _ cs] exI[of _ cl]) simp
  next
    case False
    then have "windowDaysOf r sortedDays = take bl (drop bs sortedDays)"
      using scan by (simp add: windowDaysOf_def Let_def)
    with inv show ?thesis by (intro exI[of _ bs] exI[of _ bl]) simp
  qed
qed

lemma windowDaysOf_nonempty: "sortedDays \<noteq> [] \<Longrightarrow> windowDaysOf r sortedDays \<noteq> []"
proof -
  assume "sortedDays \<noteq> []"
  from windowDaysOf_slice[OF this] obtain i n where
    w: "windowDaysOf r sortedDays = take n (drop i sortedDays)" and "1 \<le> n" "i + n \<le> length sortedDays"
    by blast
  then have "length (windowDaysOf r sortedDays) = n" by simp
  with \<open>1 \<le> n\<close> show ?thesis by auto
qed

lemma windowDaysOf_subset: "sortedDays \<noteq> [] \<Longrightarrow> set (windowDaysOf r sortedDays) \<subseteq> set sortedDays"
proof -
  assume "sortedDays \<noteq> []"
  from windowDaysOf_slice[OF this] obtain i n where
    w: "windowDaysOf r sortedDays = take n (drop i sortedDays)" by blast
  show ?thesis unfolding w by (meson set_take_subset set_drop_subset subset_trans)
qed

lemma windowDaysOf_sorted:
  assumes "sortedDays \<noteq> []" and "sorted (map f sortedDays)"
  shows "sorted (map f (windowDaysOf r sortedDays))"
proof -
  from windowDaysOf_slice[OF assms(1)] obtain i n where
    w: "windowDaysOf r sortedDays = take n (drop i sortedDays)" by blast
  show ?thesis unfolding w using assms(2)
    by (simp add: take_map[symmetric] drop_map[symmetric])
qed

lemma foldl_peak_in:
  "foldl (\<lambda>best day. if probability day > probability best then day else best) b xs \<in> set (b # xs)"
  by (induction xs arbitrary: b) auto

lemma sorted_hd_le: "sorted (map f xs) \<Longrightarrow> x \<in> set xs \<Longrightarrow> f (hd xs) \<le> f x"
  by (cases xs) auto

lemma sorted_le_last: "sorted (map f xs) \<Longrightarrow> x \<in> set xs \<Longrightarrow> f x \<le> f (last xs)"
  by (induction xs) (auto split: if_splits)

lemma findFertileWindow_peak_within:
  assumes "findFertileWindow r ds th = Some (wStart, wEnd, wPeak)"
  shows "wStart \<le> wPeak \<and> wPeak \<le> wEnd"
proof -
  let ?fd = "filter (\<lambda>d. probability d \<ge> th) ds"
  let ?sd = "sort_key (\<lambda>d. parseDate (date d)) ?fd"
  let ?wd = "windowDaysOf r ?sd"
  let ?peak = "foldl (\<lambda>best day. if probability day > probability best then day else best) (hd ?wd) ?wd"
  from assms have ne: "?fd \<noteq> []"
    by (auto simp: findFertileWindow_def Let_def split: if_splits)
  then have sne: "?sd \<noteq> []" by (metis length_sort length_0_conv)
  have eqs: "wStart = parseDate (date (hd ?wd))" "wEnd = parseDate (date (last ?wd))"
    "wPeak = parseDate (date ?peak)"
    using assms ne by (auto simp: findFertileWindow_def Let_def)
  have wne: "?wd \<noteq> []" using windowDaysOf_nonempty[OF sne] .
  have srt: "sorted (map (\<lambda>d. parseDate (date d)) ?wd)"
    using windowDaysOf_sorted[OF sne, of "\<lambda>d. parseDate (date d)"] by simp
  have "?peak \<in> set (hd ?wd # ?wd)" by (rule foldl_peak_in)
  then have pin: "?peak \<in> set ?wd" using wne by (cases ?wd) auto
  from sorted_hd_le[OF srt pin] sorted_le_last[OF srt pin] eqs show ?thesis by simp
qed

section \<open>Exact arithmetic\<close>

lemma exact_ops [simp]:
  "fadd exact x y = x + y" "fsub exact x y = x - y" "fmul exact x y = x * y"
  "fdiv exact x y = x / y" "lit exact x = x" "Math_exp exact x = exp x"
  "Math_pow exact x n = x ^ n"
  by (simp_all add: fadd_def fsub_def fmul_def fdiv_def lit_def Math_exp_def Math_pow_def exact_def)

lemma foldl_add_sum_list: "foldl (+) (a :: real) xs = a + sum_list xs"
  by (induction xs arbitrary: a) simp_all

lemma fadd_exact_fun [simp]: "fadd exact = (+)"
  by (intro ext) simp

lemma sumFromZero_exact [simp]: "sumFromZero exact xs = sum_list xs"
  by (simp add: sumFromZero_def foldl_add_sum_list)

lemma foldl_add_map: "foldl (\<lambda>sum x. sum + f x) (a :: real) xs = a + sum_list (map f xs)"
  by (induction xs arbitrary: a) simp_all

lemma totalWeightOf_exact [simp]: "totalWeightOf exact ps ws = weightSum ps ws"
  by (simp add: totalWeightOf_def weightSum_def)

lemma msPerDay_pos: "0 < msPerDay"
  by (simp add: msPerDay_def)

lemma formatDate_parseDate [simp]: "formatDate (parseDate D) = D"
  using msPerDay_pos by (simp add: formatDate_def parseDate_def)

lemma parseDate_le_iff [simp]: "parseDate a \<le> parseDate b \<longleftrightarrow> a \<le> b"
  using msPerDay_pos by (simp add: parseDate_def)

lemma parseDate_less_iff [simp]: "parseDate a < parseDate b \<longleftrightarrow> a < b"
  using msPerDay_pos by (simp add: parseDate_def)

lemma parseDate_eq_iff [simp]: "parseDate a = parseDate b \<longleftrightarrow> a = b"
  using msPerDay_pos by (simp add: parseDate_def)

lemma parseDate_add: "parseDate a + n * msPerDay = parseDate (a + n)"
  by (simp add: parseDate_def algebra_simps)

lemma parseDate_diff: "parseDate a - n * msPerDay = parseDate (a - n)"
  by (simp add: parseDate_def algebra_simps)

lemma daysBetween_parseDate [simp]: "daysBetween exact (parseDate a) (parseDate b) = \<bar>a - b\<bar>"
proof -
  have "\<bar>parseDate a - parseDate b\<bar> = \<bar>a - b\<bar> * msPerDay"
    using msPerDay_pos by (simp add: parseDate_def abs_mult left_diff_distrib[symmetric])
  then have "real_of_int \<bar>parseDate a - parseDate b\<bar> / real_of_int msPerDay = real_of_int \<bar>a - b\<bar>"
    using msPerDay_pos by simp
  then show ?thesis
    unfolding daysBetween_def Math_round_def by simp linarith
qed

lemma setDate_plus_utc [simp]: "setDate_plus utc t n = t + n * msPerDay"
  by (simp add: setDate_plus_def UTC_def LocalTime_def utc_def)

lemma getDateRange_parseDate:
  "getDateRange utc (parseDate lo) (parseDate hi) = map parseDate [lo..hi]"
proof (induction "nat (hi + 1 - lo)" arbitrary: lo)
  case 0
  then have "hi < lo" by simp
  then show ?case by (subst getDateRange.simps) simp
next
  case (Suc n)
  then have le: "lo \<le> hi" and n: "n = nat (hi + 1 - (lo + 1))" by linarith+
  have "getDateRange utc (parseDate lo) (parseDate hi)
        = parseDate lo # getDateRange utc (parseDate (lo + 1)) (parseDate hi)"
    using le parseDate_add[of lo 1] by (subst getDateRange.simps) simp
  also have "\<dots> = parseDate lo # map parseDate [lo + 1..hi]"
    using Suc.hyps(1)[OF n] by simp
  also have "\<dots> = map parseDate [lo..hi]"
    using le by (simp add: upto_rec1)
  finally show ?case .
qed

lemma foldl_min_start:
  "foldl (\<lambda>minDate p. if parseDate (fertileStart p) < minDate then parseDate (fertileStart p) else minDate) (parseDate m) ps
    = parseDate (fold min (map fertileStart ps) m)"
proof (induction ps arbitrary: m)
  case Nil then show ?case by simp
next
  case (Cons p ps)
  show ?case by (simp add: Cons.IH min_def)
qed

lemma foldl_max_end:
  "foldl (\<lambda>maxDate p. if parseDate (fertileEnd p) > maxDate then parseDate (fertileEnd p) else maxDate) (parseDate m) ps
    = parseDate (fold max (map fertileEnd ps) m)"
proof (induction ps arbitrary: m)
  case Nil then show ?case by simp
next
  case (Cons p ps)
  show ?case by (simp add: Cons.IH max_def)
qed

lemma fold_min_Min: "fold min xs (m::int) = Min (insert m (set xs))"
  by (simp add: Min.set_eq_fold[symmetric])

lemma fold_max_Max: "fold max xs (m::int) = Max (insert m (set xs))"
  by (simp add: Max.set_eq_fold[symmetric])

lemma minDateOf_eq: "ps \<noteq> [] \<Longrightarrow> minDateOf ps = parseDate (minStart ps)"
  unfolding minDateOf_def minStart_def foldl_min_start fold_min_Min
  by (cases ps) (auto simp: insert_absorb)

lemma maxDateOf_eq: "ps \<noteq> [] \<Longrightarrow> maxDateOf ps = parseDate (maxEnd ps)"
  unfolding maxDateOf_def maxEnd_def foldl_max_end fold_max_Max
  by (cases ps) (auto simp: insert_absorb)

lemma scoreDay_sum:
  "sum_list (map snd (fst (scoreDay exact ws (parseDate D) ps))) = sum_list (map (dayContribution ws D) ps)"
proof (induction ps)
  case Nil then show ?case by simp
next
  case (Cons p ps)
  then show ?case
    by (simp add: Let_def dayContribution_def split_beta)
qed

lemma dayScoreAt_date [simp]: "date (dayScoreAt exact ps ws (parseDate D)) = D"
  by (simp add: dayScoreAt_def Let_def split_beta)

lemma dayScoreAt_probability [simp]:
  "probability (dayScoreAt exact ps ws (parseDate D)) = dayProbability ps ws D"
  by (simp add: dayScoreAt_def Let_def split_beta dayProbability_def scoreDay_sum)

lemma buildDayScores_eq:
  "ps \<noteq> [] \<Longrightarrow> buildDayScores exact utc ps ws = map (\<lambda>D. dayScoreAt exact ps ws (parseDate D)) [minStart ps - 2..maxEnd ps + 2]"
  by (simp add: buildDayScores_def Let_def minDateOf_eq maxDateOf_eq parseDate_diff parseDate_add
      getDateRange_parseDate comp_def)

lemma buildDayScores_series:
  "ps \<noteq> [] \<Longrightarrow> map (\<lambda>d. (date d, probability d)) (buildDayScores exact utc ps ws)
     = map (\<lambda>D. (D, dayProbability ps ws D)) [minStart ps - 2..maxEnd ps + 2]"
  by (simp add: buildDayScores_eq comp_def)

section \<open>The vocabulary of the import\<close>

lemma mapFFCervicalMucus_range: "mapFFCervicalMucus c \<noteq> Spotting"
  by (cases c) simp_all

lemma mapFFOPKResult_range: "r \<noteq> FF_unknownOPK \<Longrightarrow> mapFFOPKResult r = Negative \<or> mapFFOPKResult r = Positive"
  by (cases r) simp_all

lemma convertCM_range: "convertCervicalMucus x = Some v \<Longrightarrow> v \<noteq> Spotting"
  using mapFFCervicalMucus_range
  by (cases x) (auto simp: convertCervicalMucus_def split: if_splits)

lemma convertOPK_range: "convertOPK x = Some r \<Longrightarrow> r = Negative \<or> r = Positive"
  using mapFFOPKResult_range
  by (cases x) (auto simp: convertOPK_def split: if_splits)

lemma normalizeCM_Dry: "normalizeCM (CervicalMucusType_literal Dry) = Some Dry"
  by code_simp

lemma normalizeCM_Sticky: "normalizeCM (CervicalMucusType_literal Sticky) = Some Sticky"
  by code_simp

lemma normalizeCM_Creamy: "normalizeCM (CervicalMucusType_literal Creamy) = Some Creamy"
  by code_simp

lemma normalizeCM_Watery: "normalizeCM (CervicalMucusType_literal Watery) = Some Watery"
  by code_simp

lemma normalizeOPK_Negative: "normalizeOPK (OPKResult_literal Negative) = Some Negative"
  by code_simp

lemma normalizeOPK_Positive: "normalizeOPK (OPKResult_literal Positive) = Some Positive"
  by code_simp

lemmas normalizeCM_literals = normalizeCM_Dry normalizeCM_Sticky normalizeCM_Creamy normalizeCM_Watery

lemmas normalizeOPK_literals = normalizeOPK_Negative normalizeOPK_Positive

lemma normalizeCM_W: "normalizeCM '' W'' = Some Watery" by code_simp
lemma normalizeOPK_Peak: "normalizeOPK ''Peak'' = Some Positive" by code_simp

section \<open>Bounds on scores, agreement and threshold in exact arithmetic\<close>

lemma dayContribution_inside:
  "fertileStart p \<le> D \<Longrightarrow> D \<le> fertileEnd p
    \<Longrightarrow> dayContribution ws D p = getWeight (source p) ws * sourceConfidence exact p"
  by (simp add: dayContribution_def)

lemma dayContribution_le:
  assumes "0 \<le> getWeight (source p) ws * sourceConfidence exact p"
  shows "dayContribution ws D p \<le> getWeight (source p) ws * sourceConfidence exact p"
proof -
  have "getWeight (source p) ws * sourceConfidence exact p * exp x \<le> getWeight (source p) ws * sourceConfidence exact p"
    if "x \<le> 0" for x :: real
    using assms that by (simp add: mult_left_le)
  then show ?thesis
    using assms by (auto simp: dayContribution_def Let_def)
qed

lemma dayContribution_nonneg:
  assumes "0 \<le> getWeight (source p) ws * sourceConfidence exact p"
  shows "0 \<le> dayContribution ws D p"
  using assms by (auto simp: dayContribution_def Let_def)

lemma dayContribution_small:
  assumes "0 \<le> getWeight (source p) ws * sourceConfidence exact p"
    and "getWeight (source p) ws * sourceConfidence exact p \<le> 0.1"
  shows "dayContribution ws D p =
     (if fertileStart p \<le> D \<and> D \<le> fertileEnd p
      then getWeight (source p) ws * sourceConfidence exact p else 0)"
proof -
  have "getWeight (source p) ws * sourceConfidence exact p * exp x \<le> 0.1"
    if "x \<le> 0" for x :: real
  proof -
    have "getWeight (source p) ws * sourceConfidence exact p * exp x
            \<le> getWeight (source p) ws * sourceConfidence exact p"
      using assms(1) that by (simp add: mult_left_le)
    with assms(2) show ?thesis by linarith
  qed
  then show ?thesis
    by (auto simp: dayContribution_def Let_def not_less[symmetric])
qed

lemma dayProbability_le:
  assumes "\<forall>p \<in> set ps. 0 \<le> getWeight (source p) ws * sourceConfidence exact p"
    and "0 < weightSum ps ws"
  shows "dayProbability ps ws D \<le> fullScore ps ws / weightSum ps ws"
proof -
  have "sum_list (map (dayContribution ws D) ps) \<le> fullScore ps ws"
    unfolding fullScore_def using assms(1)
    by (intro sum_list_mono) (auto intro: dayContribution_le)
  then show ?thesis
    using assms(2) by (simp add: dayProbability_def divide_right_mono)
qed

lemma sum_list_ge_member:
  fixes f :: "'a \<Rightarrow> real"
  assumes "\<forall>x \<in> set xs. 0 \<le> f x" and "y \<in> set xs"
  shows "f y \<le> sum_list (map f xs)"
  using assms
proof (induction xs)
  case Nil
  then show ?case by simp
next
  case (Cons x xs)
  have nn: "0 \<le> sum_list (map f xs)"
    using Cons.prems(1) by (intro sum_list_nonneg) auto
  show ?case
  proof (cases "y = x")
    case True
    with nn show ?thesis by simp
  next
    case False
    with Cons.prems have "y \<in> set xs" by simp
    with Cons.IH Cons.prems(1) have "f y \<le> sum_list (map f xs)" by simp
    moreover have "0 \<le> f x" using Cons.prems(1) by simp
    ultimately show ?thesis by simp
  qed
qed

lemma dayProbability_ge:
  assumes "\<forall>p \<in> set ps. 0 \<le> getWeight (source p) ws * sourceConfidence exact p"
    and "0 < weightSum ps ws"
    and "q \<in> set ps" "fertileStart q \<le> D" "D \<le> fertileEnd q"
  shows "getWeight (source q) ws * sourceConfidence exact q / weightSum ps ws
           \<le> dayProbability ps ws D"
proof -
  have "dayContribution ws D q \<le> sum_list (map (dayContribution ws D) ps)"
    using assms(1,3) by (intro sum_list_ge_member) (auto intro: dayContribution_nonneg)
  then show ?thesis
    using assms(2,4,5) by (simp add: dayProbability_def dayContribution_inside divide_right_mono)
qed

lemma minStart_le: "p \<in> set ps \<Longrightarrow> minStart ps \<le> fertileStart p"
  by (simp add: minStart_def)

lemma maxEnd_ge: "p \<in> set ps \<Longrightarrow> fertileEnd p \<le> maxEnd ps"
  by (simp add: maxEnd_def)

lemma ms_variance:
  "sum_list (map (\<lambda>p. ((real_of_int (parseDate (f p))
        - sum_list (map (\<lambda>p. real_of_int (parseDate (f p))) v) / real (length v))
       / real_of_int msPerDay)\<^sup>2) v) / real (length v) = varianceOf (map f v)"
proof -
  have m: "real_of_int msPerDay \<noteq> 0" using msPerDay_pos by simp
  have s: "sum_list (map (\<lambda>p. real_of_int (parseDate (f p))) v)
             = real_of_int msPerDay * sum_list (map (\<lambda>p. real_of_int (f p)) v)"
    by (simp add: parseDate_def sum_list_const_mult mult.commute)
  have "(real_of_int (parseDate (f p))
        - sum_list (map (\<lambda>p. real_of_int (parseDate (f p))) v) / real (length v))
       / real_of_int msPerDay = real_of_int (f p) - meanOf (map f v)" for p
    unfolding s using m by (simp add: parseDate_def meanOf_def comp_def field_simps)
  then show ?thesis
    by (simp add: varianceOf_def comp_def)
qed

lemma calculateSourceAgreement_eq:
  "calculateSourceAgreement exact v = (if length v \<le> 1 then 1 else exp (- avgVarianceOf v / 8))"
  using ms_variance[of fertileStart v] ms_variance[of fertileEnd v]
  by (simp add: calculateSourceAgreement_def Let_def comp_def avgVarianceOf_def foldl_add_map)

lemma varianceOf_nonneg: "0 \<le> varianceOf xs"
  unfolding varianceOf_def by (intro divide_nonneg_nonneg sum_list_nonneg) auto

lemma avgVarianceOf_nonneg: "0 \<le> avgVarianceOf v"
  using varianceOf_nonneg[of "map fertileStart v"] varianceOf_nonneg[of "map fertileEnd v"]
  by (simp add: avgVarianceOf_def)

lemma calculateSourceAgreement_pos: "0 < calculateSourceAgreement exact v"
  by (simp add: calculateSourceAgreement_eq)

lemma calculateSourceAgreement_le_1: "calculateSourceAgreement exact v \<le> 1"
  using avgVarianceOf_nonneg[of v] by (simp add: calculateSourceAgreement_eq)

lemma effectiveThreshold_ge:
  "0 \<le> disagreementPenalty opts \<Longrightarrow> a \<le> 1
     \<Longrightarrow> minConfidenceThreshold opts \<le> effectiveThreshold exact opts a"
  by (simp add: effectiveThreshold_def)

lemma effectiveThreshold_le:
  "0 \<le> disagreementPenalty opts \<Longrightarrow> 0 \<le> a
     \<Longrightarrow> effectiveThreshold exact opts a \<le> minConfidenceThreshold opts + disagreementPenalty opts"
  by (simp add: effectiveThreshold_def mult_left_le)

lemma default_options [simp]:
  "minConfidenceThreshold (mergeOptions exact noOptions) = 0.3"
  "disagreementPenalty (mergeOptions exact noOptions) = 0.15"
  "weightsO (mergeOptions exact noOptions) = DEFAULT_WEIGHTS exact"
  by (simp_all add: mergeOptions_def noOptions_def DEFAULT_OPTIONS_def)

lemma weightsOf_default [simp]: "weightsOf exact noOptions = DEFAULT_WEIGHTS exact"
  by (rule ext) (simp add: weightsOf_def map_add_def split: option.splits)

lemma getWeight_flo [simp]: "getWeight ''flo'' (DEFAULT_WEIGHTS exact) = 0.7"
  by (simp add: getWeight_def DEFAULT_WEIGHTS_def)

lemma getWeight_clue [simp]: "getWeight ''clue'' (DEFAULT_WEIGHTS exact) = 0.7"
  by (simp add: getWeight_def DEFAULT_WEIGHTS_def)

lemma thresholdOf_default_bounds:
  "0.3 \<le> thresholdOf exact ps noOptions" "thresholdOf exact ps noOptions \<le> 0.45"
  using effectiveThreshold_ge[of "mergeOptions exact noOptions" "calculateSourceAgreement exact (validPredictionsOf ps)"]
    effectiveThreshold_le[of "mergeOptions exact noOptions" "calculateSourceAgreement exact (validPredictionsOf ps)"]
    calculateSourceAgreement_le_1[of "validPredictionsOf ps"]
    calculateSourceAgreement_pos[of "validPredictionsOf ps"]
  by (simp_all add: thresholdOf_def)

lemma buildDayScores_below_iff:
  assumes "ps \<noteq> []"
  shows "(\<forall>d \<in> set (buildDayScores exact utc ps ws). probability d < th)
      \<longleftrightarrow> (\<forall>D \<in> {minStart ps - 2..maxEnd ps + 2}. dayProbability ps ws D < th)"
  by (simp add: buildDayScores_eq[OF assms])

text \<open>No day reaches the threshold when the full scores are small.\<close>
lemma seriesOf_utc:
  "timeZone h = utc \<Longrightarrow> seriesOf exact h ps options
     = buildDayScores exact utc (validPredictionsOf ps) (weightsOf exact options)"
  by (simp add: seriesOf_def)

lemma windowOf_None_small:
  assumes "timeZone h = utc" and "validPredictionsOf ps \<noteq> []"
    and "\<forall>p \<in> set (validPredictionsOf ps). 0 \<le> getWeight (source p) (weightsOf exact options) * sourceConfidence exact p"
    and "0 < weightSum (validPredictionsOf ps) (weightsOf exact options)"
    and "fullScore (validPredictionsOf ps) (weightsOf exact options)
           / weightSum (validPredictionsOf ps) (weightsOf exact options) < thresholdOf exact ps options"
  shows "windowOf exact h ps options = None"
  unfolding windowOf_None_iff seriesOf_utc[OF assms(1)] buildDayScores_below_iff[OF assms(2)]
  using dayProbability_le[OF assms(3,4)] assms(5) by (meson le_less_trans)

text \<open>Some day reaches the threshold when one prediction alone does inside its window.\<close>
lemma windowOf_Some_covered:
  assumes "timeZone h = utc" and "\<forall>p \<in> set (validPredictionsOf ps). 0 \<le> getWeight (source p) (weightsOf exact options) * sourceConfidence exact p"
    and "0 < weightSum (validPredictionsOf ps) (weightsOf exact options)"
    and "q \<in> set (validPredictionsOf ps)" "fertileStart q \<le> fertileEnd q"
    and "thresholdOf exact ps options \<le> getWeight (source q) (weightsOf exact options) * sourceConfidence exact q
           / weightSum (validPredictionsOf ps) (weightsOf exact options)"
  shows "windowOf exact h ps options \<noteq> None"
proof -
  have ne: "validPredictionsOf ps \<noteq> []" using assms(4) by auto
  have "fertileStart q \<in> {minStart (validPredictionsOf ps) - 2..maxEnd (validPredictionsOf ps) + 2}"
    using minStart_le[OF assms(4)] maxEnd_ge[OF assms(4)] assms(5) by simp
  moreover have "thresholdOf exact ps options \<le> dayProbability (validPredictionsOf ps) (weightsOf exact options) (fertileStart q)"
    using dayProbability_ge[OF assms(2,3,4) order_refl assms(5)] assms(6) by linarith
  ultimately show ?thesis
    unfolding windowOf_None_iff seriesOf_utc[OF assms(1)] buildDayScores_below_iff[OF ne]
    by (meson not_le)
qed

section \<open>Concrete inputs\<close>

lemma makePrediction_fields [simp]:
  "source (makePrediction src fStart fEnd ov conf) = src"
  "fertileStart (makePrediction src fStart fEnd ov conf) = fStart"
  "fertileEnd (makePrediction src fStart fEnd ov conf) = fEnd"
  "ovulationDate (makePrediction src fStart fEnd ov conf) = ov"
  "confidence (makePrediction src fStart fEnd ov conf) = conf"
  by (simp_all add: makePrediction_def)

lemma timeZone_hostA [simp]: "timeZone hostA = utc"
  by (simp add: hostA_def)

lemma timeZone_hostB [simp]: "timeZone hostB = utc"
  by (simp add: hostB_def)

lemma timeZone_hostNewYork [simp]: "timeZone hostNewYork = newYork"
  by (simp add: hostNewYork_def)

lemma lowConfidenceFlo_fields [simp]:
  "source lowConfidenceFlo = ''flo''"
  "fertileStart lowConfidenceFlo = 20129"
  "fertileEnd lowConfidenceFlo = 20134"
  "ovulationDate lowConfidenceFlo = Some 20140"
  "confidence lowConfidenceFlo = Some 10"
  by (simp_all add: lowConfidenceFlo_def)

lemma valid_lowConfidenceFlo [simp]: "validPredictionsOf [lowConfidenceFlo] = [lowConfidenceFlo]"
  by (simp add: validPredictionsOf_def)

lemma admitted_lowConfidenceFlo: "admitted r [lowConfidenceFlo] noOptions"
  by (simp add: admitted_def)

lemma windowOf_lowConfidenceFlo:
  "timeZone h = utc \<Longrightarrow> windowOf exact h [lowConfidenceFlo] noOptions = None"
proof (rule windowOf_None_small)
  show "fullScore (validPredictionsOf [lowConfidenceFlo]) (weightsOf exact noOptions)
          / weightSum (validPredictionsOf [lowConfidenceFlo]) (weightsOf exact noOptions)
        < thresholdOf exact [lowConfidenceFlo] noOptions"
    using thresholdOf_default_bounds(1)[of "[lowConfidenceFlo]"]
    by (simp add: fullScore_def weightSum_def sourceConfidence_def)
qed (simp_all add: weightSum_def sourceConfidence_def)

section \<open>The symptom predictor on concrete observations\<close>

lemma makeOPK_fields [simp]:
  "obs_date (makeOPK d v) = d"
  "obs_value (makeOPK d v) = OPKObs v None"
  by (simp_all add: makeOPK_def)

lemma makeOPK_kind [simp]:
  "isOPK (makeOPK d v)" "\<not> isCervicalMucus (makeOPK d v)" "\<not> isBBT (makeOPK d v)"
  by (simp_all add: isOPK_def isCervicalMucus_def isBBT_def)

lemma default_symptom_options [simp]:
  "mergeSymptomOptions noSymptomOptions = DEFAULT_SYMPTOM_OPTIONS"
  by (simp add: mergeSymptomOptions_def noSymptomOptions_def)

lemma analyzeDays_opkTwice:
  "map (\<lambda>e. (df_date e, hasOPKPositive e, cmScore e)) (analyzeDays opkTwice DEFAULT_SYMPTOM_OPTIONS)
     = [(20131, False, 0)]"
  by (simp add: analyzeDays_def opkTwice_def byDateAdd_def dayDataOf_def Let_def)

lemma analyzeDays_opkMarch:
  "map (\<lambda>e. (df_date e, hasOPKPositive e)) (analyzeDays opkMarch DEFAULT_SYMPTOM_OPTIONS)
     = [(20155, True)]"
  by (simp add: analyzeDays_def opkMarch_def byDateAdd_def dayDataOf_def Let_def)

lemma predictFromSymptoms_opkTwice: "predictFromSymptoms h opkTwice None noSymptomOptions = None"
proof -
  obtain e where e: "analyzeDays opkTwice DEFAULT_SYMPTOM_OPTIONS = [e]"
    and f: "\<not> hasOPKPositive e" "cmScore e = 0"
    using analyzeDays_opkTwice by (cases "analyzeDays opkTwice DEFAULT_SYMPTOM_OPTIONS") auto
  have "findFertileWindow_s (timeZone h) (analyzeDays opkTwice DEFAULT_SYMPTOM_OPTIONS)
          DEFAULT_SYMPTOM_OPTIONS = None"
    unfolding e using f by (simp add: findFertileWindow_s_def Let_def DEFAULT_SYMPTOM_OPTIONS_def)
  then show ?thesis
    by (simp add: predictFromSymptoms_def Let_def opkTwice_def)
qed

lemma addDays_s_utc [simp]: "addDays_s utc d n = d + n"
  using formatDate_parseDate[of "d + n"] by (simp add: addDays_s_def parseDate_def algebra_simps)

lemma addDays_s_newYork:
  "addDays_s newYork 20155 (- 2) = 20153" "addDays_s newYork 20155 2 = 20156"
  "addDays_s newYork 20155 1 = 20156"
  by (simp_all add: addDays_s_def setDate_plus_def UTC_def LocalTime_def newYork_def
      parseDate_def formatDate_def msPerDay_def msPerHour_def)

lemma window_opkMarch:
  "findFertileWindow_s z (analyzeDays opkMarch DEFAULT_SYMPTOM_OPTIONS) DEFAULT_SYMPTOM_OPTIONS
     = Some (addDays_s z 20155 (- 2), addDays_s z 20155 2, addDays_s z 20155 1)"
proof -
  obtain e where e: "analyzeDays opkMarch DEFAULT_SYMPTOM_OPTIONS = [e]"
    and f: "hasOPKPositive e" "df_date e = 20155"
    using analyzeDays_opkMarch by (cases "analyzeDays opkMarch DEFAULT_SYMPTOM_OPTIONS") auto
  show ?thesis
    unfolding e using f by (simp add: findFertileWindow_s_def Let_def DEFAULT_SYMPTOM_OPTIONS_def)
qed

lemma predictFromSymptoms_opkMarch:
  "map_option windowOfPrediction (predictFromSymptoms h opkMarch None noSymptomOptions)
     = Some (addDays_s (timeZone h) 20155 (- 2), addDays_s (timeZone h) 20155 2,
             Some (addDays_s (timeZone h) 20155 1))"
proof -
  have r: "filter (\<lambda>ob. isCervicalMucus ob \<or> isOPK ob \<or> isBBT ob) opkMarch = opkMarch"
    by (simp add: opkMarch_def)
  show ?thesis
    unfolding predictFromSymptoms_def Let_def r default_symptom_options window_opkMarch
    by (simp add: windowOfPrediction_def opkMarch_def)
qed

section \<open>The calendar baseline\<close>

lemma addDays_eq [simp]: "addDays d n = d + n"
  using formatDate_parseDate[of "d + n"]
  by (simp add: addDays_def setUTCDate_plus_def parseDate_def algebra_simps)

lemma showNat_values: "showNat 0 = ''0''" "showNat 5 = ''5''" "showNat 28 = ''28''"
  by code_simp+

lemma calendar_baseline:
  "predictFromCalendar h 20120 [] noCalendarOptions
     = \<lparr>idP = randomUUID h, source = ''manual'', fertileStart = 20129, fertileEnd = 20135,
        ovulationDate = Some 20134, confidence = Some 55, cycleId = None,
        notesP = Some (''Calendar method: Based on 0 cycles, avg 28 days, variability ''
                    @ [char_of (0xB1 :: nat)] @ ''5.0 days''),
        createdAt = isoNow h, updatedAt = isoNow h\<rparr>"
  by (simp add: predictFromCalendar_def Let_def mergeCalendarOptions_def noCalendarOptions_def
      DEFAULT_CALENDAR_OPTIONS_def calculateAverageCycleLength_def calculateCycleVariability_def
      generateId_def getTimestamp_def toFixed1_def showInt_def showNat_values
      del: showNat.simps)

section \<open>Dependence on the host\<close>

lemma predictFromSymptoms_empty:
  "relevantObs observations = [] \<Longrightarrow> predictFromSymptoms h observations cs options = None"
  by (simp add: predictFromSymptoms_def relevantObs_def)

lemma predictFromSymptoms_no_window:
  "findFertileWindow_s (timeZone h) (analyzeDays (relevantObs observations) (mergeSymptomOptions options))
      (mergeSymptomOptions options) = None
    \<Longrightarrow> predictFromSymptoms h observations cs options = None"
  unfolding predictFromSymptoms_def relevantObs_def Let_def by simp

lemma predictFromSymptoms_window:
  assumes "relevantObs observations \<noteq> []"
    and "findFertileWindow_s (timeZone h) (analyzeDays (relevantObs observations) (mergeSymptomOptions options))
      (mergeSymptomOptions options) = Some (a, b, c)"
  shows "\<exists>conf notes. predictFromSymptoms h observations cs options
           = Some \<lparr>idP = randomUUID h, source = ''fertility-friend'', fertileStart = a,
                   fertileEnd = b, ovulationDate = Some c, confidence = Some conf, cycleId = None,
                   notesP = Some notes, createdAt = isoNow h, updatedAt = isoNow h\<rparr>
         \<and> (\<forall>h'. timeZone h' = timeZone h \<longrightarrow> predictFromSymptoms h' observations cs options
           = Some \<lparr>idP = randomUUID h', source = ''fertility-friend'', fertileStart = a,
                   fertileEnd = b, ovulationDate = Some c, confidence = Some conf, cycleId = None,
                   notesP = Some notes, createdAt = isoNow h', updatedAt = isoNow h'\<rparr>)"
  using assms unfolding predictFromSymptoms_def relevantObs_def Let_def
      generateId_def getTimestamp_def
  by simp

lemma predictFromSymptoms_two_hosts:
  assumes "timeZone h' = timeZone h"
  shows "predictFromSymptoms h observations cycleStartDate symOptions
     = map_option (\<lambda>p. p\<lparr>idP := randomUUID h, createdAt := isoNow h, updatedAt := isoNow h\<rparr>)
         (predictFromSymptoms h' observations cycleStartDate symOptions)"
proof (cases "relevantObs observations = []")
  case True
  then show ?thesis by (simp add: predictFromSymptoms_empty)
next
  case False
  show ?thesis
  proof (cases "findFertileWindow_s (timeZone h) (analyzeDays (relevantObs observations) (mergeSymptomOptions symOptions))
      (mergeSymptomOptions symOptions)")
    case None
    then show ?thesis using assms by (simp add: predictFromSymptoms_no_window)
  next
    case (Some w)
    obtain a b c where "w = (a, b, c)" by (cases w) auto
    with Some have w: "findFertileWindow_s (timeZone h) (analyzeDays (relevantObs observations) (mergeSymptomOptions symOptions))
      (mergeSymptomOptions symOptions) = Some (a, b, c)" by simp
    from predictFromSymptoms_window[OF False w, of cycleStartDate] assms show ?thesis
      by auto
  qed
qed

lemma windowOf_same_zone:
  "timeZone h = timeZone h' \<Longrightarrow> windowOf r h ps options = windowOf r h' ps options"
  by (simp add: windowOf_def seriesOf_def)

lemma reconcile_two_hosts:
  assumes "timeZone h = timeZone h'"
  shows "map_option (\<lambda>res. res\<lparr>explain := []\<rparr>) (reconcile r h predictions recOptions)
     = map_option (\<lambda>res. res\<lparr>explain := []\<rparr>) (reconcile r h' predictions recOptions)"
proof (cases "admitted r predictions recOptions")
  case False
  then show ?thesis by (simp add: reconcile_not_admitted)
next
  case True
  show ?thesis
  proof (cases "windowOf r h predictions recOptions")
    case None
    then have "windowOf r h' predictions recOptions = None"
      using windowOf_same_zone[OF assms] by simp
    with None show ?thesis
      using assms by (simp add: reconcile_fallback[OF True] seriesOf_def)
  next
    case (Some w)
    obtain a b c where "w = (a, b, c)" by (cases w) auto
    with Some have w: "windowOf r h predictions recOptions = Some (a, b, c)" by simp
    then have "windowOf r h' predictions recOptions = Some (a, b, c)"
      using windowOf_same_zone[OF assms] by simp
    with w show ?thesis
      using assms by (simp add: reconcile_window[OF True] seriesOf_def)
  qed
qed

lemma predictFromCalendar_two_hosts:
  "predictFromCalendar h currentCycleStart historicalCycles calOptions
     = (predictFromCalendar h' currentCycleStart historicalCycles calOptions)
         \<lparr>idP := randomUUID h, createdAt := isoNow h, updatedAt := isoNow h\<rparr>"
  unfolding predictFromCalendar_def Let_def generateId_def getTimestamp_def by simp

section \<open>The confidence formula\<close>

lemma confidenceOf_cases:
  assumes "admitted r ps options"
  shows "confidenceOf r h ps options = Some
     (if windowOf r h ps options = None
      then max (lit r 0.2) (fmul r (calculateSourceAgreement r (validPredictionsOf ps)) 0.5)
      else finalConfidence r (calculateSourceAgreement r (validPredictionsOf ps))
              (length (validPredictionsOf ps))
              (length (identifyOutliers r (validPredictionsOf ps) (weightsOf r options))))"
proof (cases "windowOf r h ps options")
  case None
  then show ?thesis by (simp add: confidenceOf_def reconcile_fallback[OF assms None])
next
  case (Some w)
  obtain a b c where "w = (a, b, c)" by (cases w) auto
  with Some have "windowOf r h ps options = Some (a, b, c)" by simp
  from reconcile_window[OF assms this] Some show ?thesis by (simp add: confidenceOf_def)
qed

lemma count_factor_bounds: "0 < min 1 (0.7 + real n * 0.1)" "min 1 (0.7 + real n * 0.1) \<le> (1 :: real)"
  by (simp_all add: min_def add_pos_nonneg)

lemma outlier_factor_bounds:
  "(0.5 :: real) \<le> max 0.5 (1 - real k * 0.1)" "max 0.5 (1 - real k * 0.1) \<le> (1 :: real)"
  by simp_all

lemma product_le:
  fixes a f g :: real
  assumes "0 \<le> a" "0 \<le> f" "f \<le> 1" "0 \<le> g" "g \<le> 1"
  shows "a * f * g \<le> a"
proof -
  have "a * f \<le> a" using assms(1,3) by (simp add: mult_left_le)
  moreover have "a * f * g \<le> a * f" using assms(1,2,5) by (simp add: mult_left_le)
  ultimately show ?thesis by linarith
qed

lemma finalConfidence_exact:
  "finalConfidence exact a n k
     = min 1 (max 0 (a * min 1 (0.7 + real n * 0.1) * max 0.5 (1 - real k * 0.1)))"
  by (simp add: finalConfidence_def Let_def)

lemma finalConfidence_le_agreement:
  assumes "0 \<le> a" "a \<le> 1"
  shows "finalConfidence exact a n k \<le> a"
proof -
  have "a * min 1 (0.7 + real n * 0.1) * max 0.5 (1 - real k * 0.1) \<le> a"
    using count_factor_bounds[of n] outlier_factor_bounds[of k] assms(1)
    by (intro product_le) linarith+
  then show ?thesis using assms unfolding finalConfidence_exact by linarith
qed

lemma finalConfidence_ge_half:
  assumes "0 \<le> a" "a \<le> 1" "3 \<le> n"
  shows "a * 0.5 \<le> finalConfidence exact a n k"
proof -
  have m: "min 1 (0.7 + real n * 0.1) = 1" using assms(3) by simp
  have "a * 0.5 \<le> a * max 0.5 (1 - real k * 0.1)"
    using assms(1) outlier_factor_bounds(1)[of k] by (intro mult_left_mono)
  then show ?thesis using assms unfolding finalConfidence_exact m by (simp; linarith)
qed

lemma finalConfidence_no_outliers:
  assumes "0 \<le> a" "a \<le> 1"
  shows "finalConfidence exact a n 0 = a * min 1 (0.7 + real n * 0.1)"
proof -
  have "a * min 1 (0.7 + real n * 0.1) \<le> a"
    using assms(1) count_factor_bounds[of n] by (simp add: mult_left_le)
  moreover have "0 \<le> a * min 1 (0.7 + real n * 0.1)"
    using assms(1) count_factor_bounds(1)[of n] by simp
  ultimately show ?thesis using assms(2) unfolding finalConfidence_exact by (simp; linarith)
qed

lemma exp_minus_le_inverse: "0 \<le> x \<Longrightarrow> exp (- x) \<le> 1 / (1 + x)" for x :: real
proof -
  assume "0 \<le> x"
  have "1 + x \<le> exp x" by (rule exp_ge_add_one_self)
  then have "1 / exp x \<le> 1 / (1 + x)" using \<open>0 \<le> x\<close> by (intro divide_left_mono) auto
  then show ?thesis by (simp add: exp_minus inverse_eq_divide)
qed

lemma admitted_append:
  assumes "admitted r L options"
  shows "admitted r (L @ [Q]) options"
  using assms by (auto simp: admitted_def validPredictionsOf_def)

lemma validPredictionsOf_append:
  "validPredictionsOf (L @ [Q]) = validPredictionsOf L @ validPredictionsOf [Q]"
  by (simp add: validPredictionsOf_def)

lemma validPredictionsOf_single: "validPredictionsOf [Q] = [Q] \<or> validPredictionsOf [Q] = []"
  by (simp add: validPredictionsOf_def)

lemma windowOf_cong:
  "validPredictionsOf ps = validPredictionsOf ps' \<Longrightarrow> windowOf r h ps options = windowOf r h ps' options"
  by (simp add: windowOf_def thresholdOf_def seriesOf_def)

lemma confidenceOf_fallback:
  assumes "admitted r ps options" and "windowOf r h ps options = None"
  shows "confidenceOf r h ps options
           = Some (max (lit r 0.2) (fmul r (calculateSourceAgreement r (validPredictionsOf ps)) 0.5))"
  using assms(2) by (simp add: confidenceOf_cases[OF assms(1)])

lemma confidenceOf_window:
  assumes "admitted r ps options" and "windowOf r h ps options \<noteq> None"
  shows "confidenceOf r h ps options
           = Some (finalConfidence r (calculateSourceAgreement r (validPredictionsOf ps))
                    (length (validPredictionsOf ps))
                    (length (identifyOutliers r (validPredictionsOf ps) (weightsOf r options))))"
  using assms(2) by (simp only: confidenceOf_cases[OF assms(1)] if_False)

section \<open>The inputs of the fallback\<close>

lemma validPredictionsOf_Nil: "validPredictionsOf [] = []"
  by (simp add: validPredictionsOf_def)

lemma validPredictionsOf_Cons:
  "validPredictionsOf (p # ps) =
     (if (case confidence p of None \<Rightarrow> 50 | Some c \<Rightarrow> c) > 0 then p # validPredictionsOf ps
      else validPredictionsOf ps)"
  by (simp add: validPredictionsOf_def)

lemma default_weights [simp]:
  "getWeight ''natural-cycles'' (DEFAULT_WEIGHTS exact) = 0.95"
  "getWeight ''fertility-friend'' (DEFAULT_WEIGHTS exact) = 0.9"
  "getWeight ''fertile-algorithm'' (DEFAULT_WEIGHTS exact) = 0.85"
  "getWeight ''ovia'' (DEFAULT_WEIGHTS exact) = 0.65"
  "getWeight ''manual'' (DEFAULT_WEIGHTS exact) = 0.6"
  "getWeight ''calendar'' (DEFAULT_WEIGHTS exact) = 0.55"
  "getWeight ''symptoms'' (DEFAULT_WEIGHTS exact) = 0.75"
  by (simp_all add: getWeight_def DEFAULT_WEIGHTS_def)

lemma valid_fallbackList: "validPredictionsOf fallbackList = fallbackValid"
  by (simp add: fallbackList_def fallbackValid_def validPredictionsOf_Cons validPredictionsOf_Nil)

lemma admitted_fallbackList: "admitted r fallbackList noOptions"
  by (simp add: admitted_def valid_fallbackList) (simp add: fallbackList_def fallbackValid_def)

lemma windowOf_fallbackList:
  "timeZone h = utc \<Longrightarrow> windowOf exact h fallbackList noOptions = None"
proof (rule windowOf_None_small)
  show "fullScore (validPredictionsOf fallbackList) (weightsOf exact noOptions)
          / weightSum (validPredictionsOf fallbackList) (weightsOf exact noOptions)
        < thresholdOf exact fallbackList noOptions"
    using thresholdOf_default_bounds(1)[of fallbackList]
    by (simp add: valid_fallbackList fallbackValid_def fullScore_def weightSum_def sourceConfidence_def)
qed (simp_all add: valid_fallbackList fallbackValid_def weightSum_def sourceConfidence_def)

lemma agreement_fallbackList:
  "calculateSourceAgreement exact fallbackValid * 0.5 \<le> 0.2"
proof -
  have v: "avgVarianceOf fallbackValid = 2522 / 9"
    by (simp add: avgVarianceOf_def varianceOf_def meanOf_def fallbackValid_def power2_eq_square)
  have "exp (- (2522 / 9 / 8 :: real)) \<le> 1 / (1 + 2522 / 9 / 8)"
    by (rule exp_minus_le_inverse) simp
  then show ?thesis
    by (simp add: calculateSourceAgreement_eq v) (simp add: fallbackValid_def)
qed

section \<open>The day series across a change to daylight saving time\<close>

lemma minmax_single [simp]:
  "minDateOf [p] = parseDate (fertileStart p)" "maxDateOf [p] = parseDate (fertileEnd p)"
  by (simp_all add: minDateOf_def maxDateOf_def)

lemma range_floMarch:
  "getDateRange newYork (setDate_plus newYork (parseDate 20154) (- 2))
       (setDate_plus newYork (parseDate 20158) 2)
     = [1741132800000, 1741219200000, 1741305600000, 1741392000000, 1741478400000,
        1741561200000, 1741647600000, 1741734000000, 1741820400000]"
  by (simp add: getDateRange.simps setDate_plus_def UTC_def LocalTime_def newYork_def
      parseDate_def msPerDay_def msPerHour_def)

lemma dayScoreAt_fields [simp]:
  "date (dayScoreAt r ps ws d) = formatDate d"
  "sources (dayScoreAt r ps ws d) = snd (scoreDay r ws d ps)"
  by (simp_all add: dayScoreAt_def Let_def split_beta)

lemma scoreDay_single_sources:
  "snd (scoreDay r ws d [p])
     = (if parseDate (fertileStart p) \<le> d \<and> d \<le> parseDate (fertileEnd p) then [source p] else [])"
  by (simp add: Let_def)

lemma series_floMarch:
  "map date (buildDayScores r newYork [floMarch] ws)
     = [20152, 20153, 20154, 20155, 20156, 20156, 20157, 20158, 20159]"
  "map sources (buildDayScores r newYork [floMarch] ws)
     = [[], [], [''flo''], [''flo''], [''flo''], [''flo''], [''flo''], [], []]"
  unfolding buildDayScores_def Let_def minmax_single
  by (simp_all add: floMarch_def range_floMarch scoreDay_single_sources del: scoreDay.simps)
     (simp_all add: formatDate_def parseDate_def msPerDay_def)

lemma exp_half_bound: "1 / 2 \<le> exp (- (1 / 2) :: real)"
  using exp_ge_add_one_self[of "- (1 / 2) :: real"] by simp

lemma probability_floMarch:
  "probabilityAt (buildDayScores exact newYork [floMarch] (DEFAULT_WEIGHTS exact)) 20158
     = Some (9 / 10 * exp (- (1 / 2)))"
proof -
  have d: "daysBetween exact 1741734000000 (parseDate 20154) = 5"
    "daysBetween exact 1741734000000 (parseDate 20158) = 1"
    by (simp_all add: daysBetween_def Math_round_def parseDate_def msPerDay_def)
  have w: "\<not> (parseDate 20154 \<le> 1741734000000 \<and> 1741734000000 \<le> parseDate 20158)"
    by (simp add: parseDate_def msPerDay_def)
  have s: "scoreDay exact (DEFAULT_WEIGHTS exact) 1741734000000 [floMarch]
             = ([(''flo'', 7 / 10 * (9 / 10) * exp (- (1 / 2)))], [])"
    using exp_half_bound w
    by (simp add: floMarch_def Let_def d sourceConfidence_def)
  have p: "dayScoreAt exact [floMarch] (DEFAULT_WEIGHTS exact) 1741734000000
             = \<lparr>date = 20158, probability = 9 / 10 * exp (- (1 / 2)), sources = [],
                rawScores = [(''flo'', 7 / 10 * (9 / 10) * exp (- (1 / 2)))]\<rparr>"
    unfolding dayScoreAt_def s by (simp add: weightSum_def floMarch_def formatDate_def msPerDay_def)
  show ?thesis
    unfolding buildDayScores_def Let_def minmax_single probabilityAt_def
    apply (simp add: floMarch_def range_floMarch)
    apply (simp add: floMarch_def[symmetric] p)
    apply (simp add: formatDate_def msPerDay_def)
    done
qed

section \<open>Claim C1: a single prediction\<close>

text \<open>
  C1. For every prediction \<open>P\<close> whose confidence is absent or greater than zero,
  \<open>reconcile([P])\<close> with default options returns a result whose diagnostics report
  \<open>inputPredictions = 1\<close> and \<open>sourceAgreement = 1\<close>, on every host and for every
  rounding of the arithmetic.
\<close>
theorem C1_single_admitted_prediction:
  assumes "case confidence P of None \<Rightarrow> True | Some c \<Rightarrow> c > 0"
  shows "map_option (\<lambda>r. (inputPredictions (diagnostics r), sourceAgreement (diagnostics r)))
           (reconcile r h [P] noOptions) = Some (1, 1)"
proof -
  have v: "validPredictionsOf [P] = [P]"
    using assms by (auto simp: validPredictionsOf_def split: option.splits)
  show ?thesis
    by (auto simp: reconcile_def Let_def v calculateSourceAgreement_def split: option.splits)
qed

text \<open>C1 at a prediction of the source flo with confidence 70, on a host in New York.\<close>
theorem C1_single_admitted_prediction_witness:
  "(case confidence (makePrediction ''flo'' 20129 20134 None (Some 70)) of
      None \<Rightarrow> True | Some c \<Rightarrow> c > 0)
   \<and> map_option (\<lambda>r. (inputPredictions (diagnostics r), sourceAgreement (diagnostics r)))
        (reconcile binary64 hostNewYork [makePrediction ''flo'' 20129 20134 None (Some 70)] noOptions)
      = Some (1, 1)"
  using C1_single_admitted_prediction[of "makePrediction ''flo'' 20129 20134 None (Some 70)" binary64 hostNewYork]
  by (simp add: makePrediction_def)

text \<open>
  C1 as stated, for every prediction, fails: a prediction with confidence 0 is filtered
  out at admission and \<open>reconcile\<close> returns null.
\<close>
theorem C1_zero_confidence_counterexample:
  "reconcile binary64 hostA [makePrediction ''flo'' 20129 20134 None (Some 0)] noOptions = None"
  by (simp add: reconcile_None_iff validPredictionsOf_def makePrediction_def)



section \<open>Claim C4: the day-probability series\<close>

text \<open>
  C4. The range of dates is stepped in the local time of the host. On a host in New
  York, for one flo prediction of confidence 90 with the window 2025-03-07 to
  2025-03-11, the series has two entries for 2025-03-09 and none for 2025-03-13, the
  last date of the union range extended by 2 days; the entry for 2025-03-11, the last
  day of the window, is not counted as covered by the prediction, and its
  probability (in exact arithmetic) is the decayed \<open>0.9 * exp(- 1 / 2)\<close> where the
  stated sum gives \<open>0.7 * 0.9 / 0.7 = 0.9\<close>. The dates and the covering sources are
  those of the binary64 arithmetic.
\<close>
theorem C4_series_across_daylight_saving:
  "map date (buildDayScores binary64 newYork [floMarch] (DEFAULT_WEIGHTS binary64))
     = [20152, 20153, 20154, 20155, 20156, 20156, 20157, 20158, 20159]
   \<and> map sources (buildDayScores binary64 newYork [floMarch] (DEFAULT_WEIGHTS binary64))
     = [[], [], [''flo''], [''flo''], [''flo''], [''flo''], [''flo''], [], []]
   \<and> probabilityAt (buildDayScores exact newYork [floMarch] (DEFAULT_WEIGHTS exact)) 20158
     = Some (9 / 10 * exp (- (1 / 2)))"
  using series_floMarch[of binary64 "DEFAULT_WEIGHTS binary64"] probability_floMarch
  by simp
section \<open>Claim C5: the fallback\<close>

text \<open>
  C5. Whenever admission succeeds but no day's probability reaches the effective
  threshold, \<open>reconcile\<close> returns the window and the ovulation date of the admitted
  prediction with the highest effective weight, the first one on ties (index \<open>i\<close>
  below), with confidence \<open>max(0.2, agreement * 0.5)\<close> and an explanation that
  begins with the low-confidence note and names the fallback source; on every host
  and for every rounding of the arithmetic.
\<close>
theorem C5_fallback_returns_heaviest:
  assumes "admitted r ps options"
    and "\<forall>d \<in> set (seriesOf r h ps options). probability d < thresholdOf r ps options"
  shows "\<exists>i < length (validPredictionsOf ps).
           (\<forall>j < length (validPredictionsOf ps).
              getWeight (source (validPredictionsOf ps ! j)) (weightsOf r options)
                \<le> getWeight (source (validPredictionsOf ps ! i)) (weightsOf r options))
         \<and> (\<forall>j < i.
              getWeight (source (validPredictionsOf ps ! j)) (weightsOf r options)
                < getWeight (source (validPredictionsOf ps ! i)) (weightsOf r options))
         \<and> map_option (\<lambda>res. (r_fertileStart res, r_fertileEnd res, r_ovulationDate res,
                              r_confidence res, explain res)) (reconcile r h ps options)
             = Some (parseDate (fertileStart (validPredictionsOf ps ! i)),
                     parseDate (fertileEnd (validPredictionsOf ps ! i)),
                     map_option parseDate (ovulationDate (validPredictionsOf ps ! i)),
                     max (lit r 0.2) (fmul r (calculateSourceAgreement r (validPredictionsOf ps)) 0.5),
                     [''Low confidence: Could not reconcile predictions'',
                      ''Falling back to '' @ source (validPredictionsOf ps ! i)
                         @ '' prediction''])"
proof -
  have ne: "validPredictionsOf ps \<noteq> []" using assms(1) by (simp add: admitted_def)
  have none: "windowOf r h ps options = None" using assms(2) by (simp add: windowOf_None_iff)
  from fallbackBest_first_heaviest[OF ne, of "weightsOf r options"] obtain i where
    i: "i < length (validPredictionsOf ps)"
       "fallbackBest (validPredictionsOf ps) (weightsOf r options) = validPredictionsOf ps ! i"
       "\<forall>j < length (validPredictionsOf ps).
              getWeight (source (validPredictionsOf ps ! j)) (weightsOf r options)
                \<le> getWeight (source (validPredictionsOf ps ! i)) (weightsOf r options)"
       "\<forall>j < i. getWeight (source (validPredictionsOf ps ! j)) (weightsOf r options)
                < getWeight (source (validPredictionsOf ps ! i)) (weightsOf r options)"
    by blast
  show ?thesis
    using i by (intro exI[of _ i]) (simp add: reconcile_fallback[OF assms(1) none])
qed


text \<open>
  C5 at a list of four predictions: natural-cycles with confidence 0, which is not
  admitted, then flo, fertility-friend and fertility-friend with confidence 10 and
  windows three weeks apart. No day reaches the threshold; the first fertility-friend
  prediction (weight 0.9 against 0.7, and first of the tie) is returned with its
  window 2025-03-03 to 2025-03-08 and its ovulation date, and the confidence is the
  floor 0.2.
\<close>
theorem C5_fallback_witness:
  "admitted exact fallbackList noOptions
   \<and> windowOf exact hostA fallbackList noOptions = None
   \<and> map_option (\<lambda>res. (r_fertileStart res, r_fertileEnd res, r_ovulationDate res,
                        r_confidence res, explain res)) (reconcile exact hostA fallbackList noOptions)
       = Some (parseDate 20150, parseDate 20155, Some (parseDate 20152), 0.2,
               [''Low confidence: Could not reconcile predictions'',
                ''Falling back to fertility-friend prediction''])"
proof -
  have none: "windowOf exact hostA fallbackList noOptions = None"
    by (rule windowOf_fallbackList) simp
  have h: "\<forall>d \<in> set (seriesOf exact hostA fallbackList noOptions).
             probability d < thresholdOf exact fallbackList noOptions"
    using none unfolding windowOf_None_iff .
  have len: "length fallbackValid = 3" by (simp add: fallbackValid_def)
  have "\<exists>i < length fallbackValid.
           (\<forall>j < length fallbackValid.
              getWeight (source (fallbackValid ! j)) (DEFAULT_WEIGHTS exact)
                \<le> getWeight (source (fallbackValid ! i)) (DEFAULT_WEIGHTS exact))
         \<and> (\<forall>j < i.
              getWeight (source (fallbackValid ! j)) (DEFAULT_WEIGHTS exact)
                < getWeight (source (fallbackValid ! i)) (DEFAULT_WEIGHTS exact))
         \<and> map_option (\<lambda>res. (r_fertileStart res, r_fertileEnd res, r_ovulationDate res,
                              r_confidence res, explain res)) (reconcile exact hostA fallbackList noOptions)
             = Some (parseDate (fertileStart (fallbackValid ! i)),
                     parseDate (fertileEnd (fallbackValid ! i)),
                     map_option parseDate (ovulationDate (fallbackValid ! i)),
                     max (lit exact 0.2) (fmul exact (calculateSourceAgreement exact fallbackValid) 0.5),
                     [''Low confidence: Could not reconcile predictions'',
                      ''Falling back to '' @ source (fallbackValid ! i) @ '' prediction''])"
    using C5_fallback_returns_heaviest[OF admitted_fallbackList h]
    unfolding valid_fallbackList weightsOf_default .
  then obtain i where i: "i < 3"
    and top: "\<forall>j < 3. getWeight (source (fallbackValid ! j)) (DEFAULT_WEIGHTS exact)
                \<le> getWeight (source (fallbackValid ! i)) (DEFAULT_WEIGHTS exact)"
    and first: "\<forall>j < i. getWeight (source (fallbackValid ! j)) (DEFAULT_WEIGHTS exact)
                < getWeight (source (fallbackValid ! i)) (DEFAULT_WEIGHTS exact)"
    and res: "map_option (\<lambda>res. (r_fertileStart res, r_fertileEnd res, r_ovulationDate res,
                        r_confidence res, explain res)) (reconcile exact hostA fallbackList noOptions)
       = Some (parseDate (fertileStart (fallbackValid ! i)),
               parseDate (fertileEnd (fallbackValid ! i)),
               map_option parseDate (ovulationDate (fallbackValid ! i)),
               max (lit exact 0.2) (fmul exact (calculateSourceAgreement exact fallbackValid) 0.5),
               [''Low confidence: Could not reconcile predictions'',
                ''Falling back to '' @ source (fallbackValid ! i) @ '' prediction''])"
    unfolding len by blast
  have "i \<noteq> 0"
  proof
    assume "i = 0"
    with top have "getWeight (source (fallbackValid ! 1)) (DEFAULT_WEIGHTS exact)
                \<le> getWeight (source (fallbackValid ! 0)) (DEFAULT_WEIGHTS exact)" by simp
    then show False by (simp add: fallbackValid_def)
  qed
  moreover have "i \<noteq> 2"
  proof
    assume "i = 2"
    with first have "getWeight (source (fallbackValid ! 1)) (DEFAULT_WEIGHTS exact)
                < getWeight (source (fallbackValid ! 2)) (DEFAULT_WEIGHTS exact)" by simp
    then show False by (simp add: fallbackValid_def)
  qed
  ultimately have i1: "i = 1" using i by linarith
  have mx: "max (lit exact 0.2) (fmul exact (calculateSourceAgreement exact fallbackValid) 0.5) = 0.2"
    using agreement_fallbackList by (simp add: max_def)
  have f: "fertileStart (fallbackValid ! 1) = 20150" "fertileEnd (fallbackValid ! 1) = 20155"
    "ovulationDate (fallbackValid ! 1) = Some 20152"
    "source (fallbackValid ! 1) = ''fertility-friend''"
    by (simp_all add: fallbackValid_def)
  have "map_option (\<lambda>res. (r_fertileStart res, r_fertileEnd res, r_ovulationDate res,
                        r_confidence res, explain res)) (reconcile exact hostA fallbackList noOptions)
       = Some (parseDate 20150, parseDate 20155, Some (parseDate 20152), 0.2,
               [''Low confidence: Could not reconcile predictions'',
                ''Falling back to fertility-friend prediction''])"
    using res unfolding i1 mx f by simp
  with none admitted_fallbackList show ?thesis by blast
qed
section \<open>Claim C6: the OPK flag and the OPK window\<close>

text \<open>
  C6. The per-day aggregation reads only the first OPK observation of a date: for a
  negative and then a positive observation on 2025-02-12 the flag \<open>hasOPKPositive\<close> of
  that date is false, although an OPK observation of the date is positive, and no
  prediction is emitted. The window is computed on the local days of the host: for a
  single positive observation on 2025-03-08 a host in New York emits the window
  2025-03-06 to 2025-03-09, not \<open>[D - 2, D + 2]\<close>, which ends on 2025-03-10; the
  ovulation date is 2025-03-09.
\<close>
theorem C6_first_reading_and_local_days:
  "anyOPKPositiveOn opkTwice 20131
   \<and> map hasOPKPositive (analyzeDays opkTwice (mergeSymptomOptions noSymptomOptions)) = [False]
   \<and> predictFromSymptoms hostA opkTwice None noSymptomOptions = None
   \<and> map_option windowOfPrediction (predictFromSymptoms hostNewYork opkMarch None noSymptomOptions)
       = Some (20153, 20156, Some 20156)"
proof -
  have a: "anyOPKPositiveOn opkTwice 20131"
    by (simp add: anyOPKPositiveOn_def opkTwice_def opkValueOf_def)
  have m: "map hasOPKPositive (analyzeDays opkTwice DEFAULT_SYMPTOM_OPTIONS) = [False]"
    using arg_cong[OF analyzeDays_opkTwice, of "map (\<lambda>t. fst (snd t))"] by (simp add: comp_def)
  show ?thesis
    using a m predictFromSymptoms_opkTwice[of hostA] predictFromSymptoms_opkMarch[of hostNewYork]
    by (simp add: addDays_s_newYork)
qed
section \<open>Claim C7: date cells of the CSV import\<close>

text \<open>
  C7. The cell \<open>25/12/2024\<close> matches the pattern of the US rule, which does not bound
  the month; the cell is read as month 25, day 12, and the European rule, which has
  the same pattern, is never reached. The date returned is \<open>2024-25-12\<close>, not
  \<open>2024-12-25\<close>, and no row-level error is produced.
\<close>
theorem C7_european_date_misparsed:
  "parseDate_ff freeForm ''25/12/2024'' 2 = Inr ''2024-25-12''"
  by code_simp

section \<open>Claim C8: fixed points of the normalisation\<close>

text \<open>
  C8. Every cervical-mucus value produced by the normalisation other than
  \<open>egg-white\<close>, and every OPK value produced by it, is mapped to itself when its
  literal is normalised again.
\<close>
theorem C8_fixed_points_except_egg_white:
  "(normalizeCM s = Some v \<longrightarrow> v \<noteq> EggWhite \<longrightarrow> normalizeCM (CervicalMucusType_literal v) = Some v)
   \<and> (normalizeOPK t = Some r \<longrightarrow> normalizeOPK (OPKResult_literal r) = Some r)"
proof (intro conjI impI)
  assume "normalizeCM s = Some v" "v \<noteq> EggWhite"
  then have "v \<noteq> Spotting" by (auto simp: normalizeCM_def dest: convertCM_range)
  with \<open>v \<noteq> EggWhite\<close> show "normalizeCM (CervicalMucusType_literal v) = Some v"
    by (cases v) (simp_all add: normalizeCM_literals del: CervicalMucusType_literal.simps)
next
  assume "normalizeOPK t = Some r"
  then have "r = Negative \<or> r = Positive" by (auto simp: normalizeOPK_def dest: convertOPK_range)
  then show "normalizeOPK (OPKResult_literal r) = Some r"
    by (auto simp add: normalizeOPK_literals simp del: OPKResult_literal.simps)
qed

text \<open>C8 at the cells \<open>W\<close> (watery) and \<open>Peak\<close> (positive).\<close>
theorem C8_fixed_points_witness:
  "normalizeCM '' W'' = Some Watery \<and> Watery \<noteq> EggWhite
   \<and> normalizeCM (CervicalMucusType_literal Watery) = Some Watery
   \<and> normalizeOPK ''Peak'' = Some Positive
   \<and> normalizeOPK (OPKResult_literal Positive) = Some Positive"
  using C8_fixed_points_except_egg_white[of "'' W''" Watery "''Peak''" Positive] normalizeCM_W normalizeOPK_Peak
  by simp

text \<open>
  C8 as stated fails at \<open>egg-white\<close>: the normalisation produces it from
  \<open>eggwhite\<close>, but the synonym table has no entry for the literal \<open>egg-white\<close>,
  which parses to \<open>unknown\<close> and is dropped.
\<close>
theorem C8_egg_white_counterexample:
  "normalizeCM ''eggwhite'' = Some EggWhite
   \<and> normalizeCM (CervicalMucusType_literal EggWhite) \<noteq> Some EggWhite"
  by code_simp


section \<open>Claim C9: determinism and the reads of the host\<close>

text \<open>
  C9. For a fixed input, two invocations of \<open>predictFromCalendar\<close> return outputs that
  agree in every field except \<open>id\<close>, \<open>createdAt\<close> and \<open>updatedAt\<close>, which are read
  from the UUID source and the clock of the host. The same holds for
  \<open>predictFromSymptoms\<close> on hosts in the same time zone, which it reads through
  \<open>setDate\<close>. \<open>reconcile\<close> reads neither the UUID source nor the clock; on hosts in
  the same time zone its results agree except in the explanation strings, which
  depend on the date formatting of the host.
\<close>
theorem C9_outputs_up_to_host_reads:
  "predictFromCalendar h currentCycleStart historicalCycles calOptions
     = (predictFromCalendar h' currentCycleStart historicalCycles calOptions)
         \<lparr>idP := randomUUID h, createdAt := isoNow h, updatedAt := isoNow h\<rparr>
   \<and> (timeZone h' = timeZone h \<longrightarrow>
        predictFromSymptoms h observations cycleStartDate symOptions
          = map_option (\<lambda>p. p\<lparr>idP := randomUUID h, createdAt := isoNow h, updatedAt := isoNow h\<rparr>)
              (predictFromSymptoms h' observations cycleStartDate symOptions))
   \<and> (timeZone h' = timeZone h \<longrightarrow>
        map_option (\<lambda>res. res\<lparr>explain := []\<rparr>) (reconcile r h predictions recOptions)
          = map_option (\<lambda>res. res\<lparr>explain := []\<rparr>) (reconcile r h' predictions recOptions))"
  using predictFromCalendar_two_hosts[of h currentCycleStart historicalCycles calOptions h']
    predictFromSymptoms_two_hosts[of h' h observations cycleStartDate symOptions]
    reconcile_two_hosts[of h h' r predictions recOptions]
  by auto

text \<open>
  C9 at two readings of a host in UTC: the calendar baseline (cycle start 2025-02-01,
  no history) has the window 2025-02-10 to 2025-02-16 with ovulation 2025-02-15 in
  both, and the symptom prediction for a positive OPK on 2025-03-08 the window
  2025-03-06 to 2025-03-10 in both.
\<close>
theorem C9_outputs_witness:
  "timeZone hostB = timeZone hostA
   \<and> predictFromCalendar hostA 20120 [] noCalendarOptions
     = (predictFromCalendar hostB 20120 [] noCalendarOptions)
         \<lparr>idP := randomUUID hostA, createdAt := isoNow hostA, updatedAt := isoNow hostA\<rparr>
   \<and> windowOfPrediction (predictFromCalendar hostA 20120 [] noCalendarOptions)
       = (20129, 20135, Some 20134)
   \<and> predictFromSymptoms hostA opkMarch None noSymptomOptions
       = map_option (\<lambda>p. p\<lparr>idP := randomUUID hostA, createdAt := isoNow hostA, updatedAt := isoNow hostA\<rparr>)
           (predictFromSymptoms hostB opkMarch None noSymptomOptions)
   \<and> map_option windowOfPrediction (predictFromSymptoms hostB opkMarch None noSymptomOptions)
       = Some (20153, 20157, Some 20156)
   \<and> map_option (\<lambda>res. res\<lparr>explain := []\<rparr>) (reconcile exact hostA [lowConfidenceFlo] noOptions)
       = map_option (\<lambda>res. res\<lparr>explain := []\<rparr>) (reconcile exact hostB [lowConfidenceFlo] noOptions)
   \<and> reconcile exact hostB [lowConfidenceFlo] noOptions \<noteq> None"
  using C9_outputs_up_to_host_reads[of hostA 20120 "[]" noCalendarOptions hostB opkMarch None
      noSymptomOptions exact "[lowConfidenceFlo]" noOptions]
    predictFromSymptoms_opkMarch[of hostB]
  by (simp add: calendar_baseline windowOfPrediction_def reconcile_None_iff)

text \<open>
  C9 as stated fails. On the same input, two invocations of \<open>predictFromCalendar\<close>
  that read different UUIDs and clock values return different predictions; and
  \<open>predictFromSymptoms\<close>, for a positive OPK on 2025-03-08, returns the window end
  2025-03-10 on a host in UTC and 2025-03-09 on a host in New York that reads the
  same UUID and clock value.
\<close>
theorem C9_host_counterexample:
  "predictFromCalendar hostA 20120 [] noCalendarOptions
     \<noteq> predictFromCalendar hostB 20120 [] noCalendarOptions
   \<and> randomUUID hostNewYork = randomUUID hostA \<and> isoNow hostNewYork = isoNow hostA
   \<and> map_option fertileEnd (predictFromSymptoms hostA opkMarch None noSymptomOptions) = Some 20157
   \<and> map_option fertileEnd (predictFromSymptoms hostNewYork opkMarch None noSymptomOptions) = Some 20156"
proof -
  have "predictFromCalendar hostA 20120 [] noCalendarOptions
     \<noteq> predictFromCalendar hostB 20120 [] noCalendarOptions"
    by (simp add: calendar_baseline hostA_def hostB_def)
  moreover have "map_option fertileEnd (predictFromSymptoms hostA opkMarch None noSymptomOptions) = Some 20157"
    using arg_cong[OF predictFromSymptoms_opkMarch[of hostA], of "map_option (\<lambda>t. fst (snd t))"]
    by (simp add: option.map_comp comp_def windowOfPrediction_def)
  moreover have "map_option fertileEnd (predictFromSymptoms hostNewYork opkMarch None noSymptomOptions) = Some 20156"
    using arg_cong[OF predictFromSymptoms_opkMarch[of hostNewYork], of "map_option (\<lambda>t. fst (snd t))"]
    by (simp add: option.map_comp comp_def windowOfPrediction_def addDays_s_newYork)
  ultimately show ?thesis by (simp add: hostA_def hostNewYork_def)
qed
section \<open>Claim C10: the ovulation date and the window\<close>

text \<open>
  C10. If every admitted prediction that carries an ovulation date has it inside its
  own window, then whenever \<open>reconcile\<close> returns a result with an ovulation date,
  that date lies in the returned window:
  \<open>fertileStart \<le> ovulationDate \<le> fertileEnd\<close>. On the extraction path this
  holds without the hypothesis: the peak is a day of the extracted run.
\<close>
theorem C10_ovulation_within_window:
  assumes "\<forall>p \<in> set (validPredictionsOf ps).
             case ovulationDate p of None \<Rightarrow> True
             | Some ov \<Rightarrow> fertileStart p \<le> ov \<and> ov \<le> fertileEnd p"
  shows "case reconcile r h ps options of None \<Rightarrow> True
         | Some r \<Rightarrow> (case r_ovulationDate r of None \<Rightarrow> True
                       | Some ov \<Rightarrow> r_fertileStart r \<le> ov \<and> ov \<le> r_fertileEnd r)"
proof (cases "admitted r ps options")
  case False
  then show ?thesis by (simp add: reconcile_not_admitted)
next
  case True
  then have ne: "validPredictionsOf ps \<noteq> []" by (simp add: admitted_def)
  show ?thesis
  proof (cases "windowOf r h ps options")
    case None
    let ?best = "fallbackBest (validPredictionsOf ps) (weightsOf r options)"
    have "?best \<in> set (validPredictionsOf ps)" by (rule fallbackBest_in[OF ne])
    with assms have "case ovulationDate ?best of None \<Rightarrow> True
             | Some ov \<Rightarrow> fertileStart ?best \<le> ov \<and> ov \<le> fertileEnd ?best" by blast
    then show ?thesis
      by (simp add: reconcile_fallback[OF True None] split: option.splits)
  next
    case (Some w)
    obtain wStart wEnd wPeak where w: "w = (wStart, wEnd, wPeak)" by (cases w) auto
    from Some w have "wStart \<le> wPeak \<and> wPeak \<le> wEnd"
      using findFertileWindow_peak_within unfolding windowOf_def by blast
    then show ?thesis
      using Some w by (simp add: reconcile_window[OF True])
  qed
qed

text \<open>C10 at a single prediction whose ovulation date is inside its window.\<close>
theorem C10_ovulation_within_window_witness:
  "validPredictionsOf [consistentFlo] = [consistentFlo]
   \<and> ovulationDate consistentFlo = Some 20133
   \<and> fertileStart consistentFlo \<le> 20133 \<and> 20133 \<le> fertileEnd consistentFlo
   \<and> reconcile exact hostA [consistentFlo] noOptions \<noteq> None
   \<and> (case reconcile exact hostA [consistentFlo] noOptions of None \<Rightarrow> True
         | Some r \<Rightarrow> (case r_ovulationDate r of None \<Rightarrow> True
                       | Some ov \<Rightarrow> r_fertileStart r \<le> ov \<and> ov \<le> r_fertileEnd r))"
proof -
  have v: "validPredictionsOf [consistentFlo] = [consistentFlo]"
    by (simp add: validPredictionsOf_def consistentFlo_def)
  have h: "\<forall>p \<in> set (validPredictionsOf [consistentFlo]).
             case ovulationDate p of None \<Rightarrow> True
             | Some ov \<Rightarrow> fertileStart p \<le> ov \<and> ov \<le> fertileEnd p"
    unfolding v by (simp add: consistentFlo_def)
  have "reconcile exact hostA [consistentFlo] noOptions \<noteq> None"
    by (simp add: reconcile_None_iff v)
  with v C10_ovulation_within_window[OF h, of exact hostA noOptions] show ?thesis
    by (simp add: consistentFlo_def)
qed

text \<open>
  C10 as stated fails on the fallback path, which returns the ovulation date of the
  chosen prediction as it is: for a single prediction with window 2025-02-10 to
  2025-02-15 and ovulation date 2025-02-21 the result has that window and that
  ovulation date.
\<close>
theorem C10_fallback_counterexample:
  "map_option windowAndOvulation
     (reconcile exact hostA [lowConfidenceFlo] noOptions)
     = Some (parseDate 20129, Some (parseDate 20140), parseDate 20134)
   \<and> \<not> parseDate 20140 \<le> parseDate 20134"
  by (simp add: reconcile_fallback[OF admitted_lowConfidenceFlo windowOf_lowConfidenceFlo[OF timeZone_hostA]]
        fallbackBest_def windowAndOvulation_def)

end
